theory Spec2Isabelle
  imports Complex_Main
begin

section \<open>The notebooks as data\<close>

text \<open>
  The repository consists of four Jupyter notebooks under \<^verbatim>\<open>src/tutorial\<close>. Their executable
  content is the Python of the code cells; markdown cells, cell outputs and Python comments
  are not executed and are left out. A code cell is kept as the list of its statements, each
  tagged with the line of the \<^verbatim>\<open>.ipynb\<close> file on which it starts, and a notebook is the list
  of its code cells in file order, which is the order in which they run.

  Statements and expressions are those of Python's abstract syntax, under the names of the
  \<^verbatim>\<open>ast\<close> module. The expression forms are the ones that occur in the notebooks. The
  statement forms are the four that occur (\<^verbatim>\<open>from m import *\<close>, \<^verbatim>\<open>import m as a\<close>,
  assignment, expression statement) and the compound and control forms of the language that
  the properties below speak about: a notebook that has none of them says something.
\<close>

datatype binop = Add | Sub | Mult | Div

datatype expr =
    Name string
  | IntC int
  | FloatC rat
  | StrC string
  | JoinedStr "expr list"
  | Attribute expr string
  | Call expr "expr list" "(string \<times> expr) list"
  | BinOp expr binop expr
  | ListE "expr list"
  | TupleE "expr list"
  | Subscript expr expr
  | SliceAll

datatype stmt =
    ImportFrom string
  | Import string string
  | Assign expr expr
  | Expr expr
  | IfS expr "stmt list" "stmt list"
  | ForS expr expr "stmt list"
  | WhileS expr "stmt list"
  | FunctionDef string "string list" "stmt list"
  | ClassDef string "stmt list"
  | TryS "stmt list" "stmt list"
  | WithS expr "stmt list"
  | Raise expr

type_synonym cell = "(nat \<times> stmt) list"
type_synonym notebook = "cell list"

text \<open>
  A float literal is kept as the rational number its decimal text denotes
  (\<^verbatim>\<open>6.8\<close> is \<open>68 / 10\<close>, \<^verbatim>\<open>1e-6\<close> is \<open>1 / 10^6\<close>), an f-string as the list of its literal
  pieces and interpolated expressions, and the bare \<^verbatim>\<open>:\<close> of a subscript as \<open>SliceAll\<close>.
\<close>

text \<open>\<^verbatim>\<open>src/tutorial/kin.calcite-hcl.ipynb\<close>\<close>

definition kin_calcite_hcl :: notebook where
  "kin_calcite_hcl = [
    [
     (24, ImportFrom ''reaktoro'')
    ],
    [
     (46, Assign (Name ''editor'') (Call (Name ''ChemicalEditor'') [] [])),
     (47, Expr (Call (Attribute (Name ''editor'') ''addAqueousPhaseWithElementsOf'') [StrC ''H2O HCl CaCO3''] [])),
     (48, Expr (Call (Attribute (Name ''editor'') ''addMineralPhase'') [StrC ''Calcite''] []))
    ],
    [
     (80, Expr (Call (Attribute (Call (Attribute (Call (Attribute (Call (Attribute (Call (Attribute (Name ''editor'') ''addMineralReaction'') [StrC ''Calcite''] []) ''setEquation'') [StrC ''Calcite = Ca++ + CO3--''] []) ''addMechanism'') [StrC ''logk = -5.81 mol/(m2*s); Ea = 23.5 kJ/mol''] []) ''addMechanism'') [StrC ''logk = -0.30 mol/(m2*s); Ea = 14.4 kJ/mol; a[H+] = 1.0''] []) ''setSpecificSurfaceArea'') [IntC 10, StrC ''cm2/g''] []))
    ],
    [
     (108, Assign (Name ''system'') (Call (Name ''ChemicalSystem'') [Name ''editor''] [])),
     (109, Assign (Name ''reactions'') (Call (Name ''ReactionSystem'') [Name ''editor''] []))
    ],
    [
     (135, Assign (Name ''partition'') (Call (Name ''Partition'') [Name ''system''] [])),
     (136, Expr (Call (Attribute (Name ''partition'') ''setKineticSpecies'') [ListE [StrC ''Calcite'']] []))
    ],
    [
     (156, Assign (Name ''problem'') (Call (Name ''EquilibriumProblem'') [Name ''system''] [])),
     (157, Expr (Call (Attribute (Name ''problem'') ''setPartition'') [Name ''partition''] [])),
     (158, Expr (Call (Attribute (Name ''problem'') ''setTemperature'') [IntC 30, StrC ''celsius''] [])),
     (159, Expr (Call (Attribute (Name ''problem'') ''setPressure'') [IntC 1, StrC ''bar''] [])),
     (160, Expr (Call (Attribute (Name ''problem'') ''add'') [StrC ''H2O'', IntC 1, StrC ''kg''] [])),
     (161, Expr (Call (Attribute (Name ''problem'') ''add'') [StrC ''HCl'', IntC 1, StrC ''mmol''] []))
    ],
    [
     (191, Assign (Name ''state0'') (Call (Name ''equilibrate'') [Name ''problem''] []))
    ],
    [
     (215, Expr (Call (Attribute (Name ''state0'') ''setSpeciesMass'') [StrC ''Calcite'', IntC 100, StrC ''g''] []))
    ],
    [
     (235, Assign (Name ''path'') (Call (Name ''KineticPath'') [Name ''reactions''] [])),
     (236, Expr (Call (Attribute (Name ''path'') ''setPartition'') [Name ''partition''] []))
    ],
    [
     (253, Assign (Name ''output'') (Call (Attribute (Name ''path'') ''output'') [] [])),
     (254, Expr (Call (Attribute (Name ''output'') ''filename'') [StrC ''results.txt''] [])),
     (255, Expr (Call (Attribute (Name ''output'') ''add'') [StrC ''time(units=minute)''] [])),
     (256, Expr (Call (Attribute (Name ''output'') ''add'') [StrC ''elementMolality(Ca units=mmolal)'', StrC ''Ca [mmolal]''] [])),
     (257, Expr (Call (Attribute (Name ''output'') ''add'') [StrC ''phaseMass(Calcite units=g)'', StrC ''Calcite [units=g]''] [])),
     (258, Expr (Call (Attribute (Name ''output'') ''add'') [StrC ''speciesMolality(Ca++ units=mmolal)'', StrC ''Ca++ [mmol]''] [])),
     (259, Expr (Call (Attribute (Name ''output'') ''add'') [StrC ''speciesMolality(HCO3- units=mmolal)'', StrC ''HCO3- [mmol]''] [])),
     (260, Expr (Call (Attribute (Name ''output'') ''add'') [StrC ''pH''] []))
    ],
    [
     (287, Assign (TupleE [Name ''t0'', Name ''t1'']) (TupleE [FloatC (0), FloatC (5)])),
     (288, Expr (Call (Attribute (Name ''path'') ''solve'') [Name ''state0'', Name ''t0'', Name ''t1'', StrC ''minute''] []))
    ],
    [
     (307, Import ''matplotlib.pyplot'' ''plt'')
    ],
    [
     (324, Assign (Name ''filearray'') (Call (Attribute (Name ''numpy'') ''loadtxt'') [StrC ''results.txt''] [(''skiprows'', IntC 1)])),
     (325, Assign (Name ''data'') (Attribute (Name ''filearray'') ''T'')),
     (326, Assign (ListE [Name ''time_indx'', Name ''ca_elem_indx'', Name ''calcite_indx'', Name ''ca_species_indx'', Name ''hco3_indx'', Name ''ph_indx'']) (Call (Attribute (Name ''numpy'') ''arange'') [IntC 0, IntC 6] []))
    ],
    [
     (343, Assign (Name ''time'') (Subscript (Name ''data'') (TupleE [Name ''time_indx'', SliceAll]))),
     (345, Expr (Call (Attribute (Name ''plt'') ''figure'') [] [])),
     (346, Expr (Call (Attribute (Name ''plt'') ''plot'') [Name ''time'', Subscript (Name ''data'') (Name ''ca_elem_indx'')] [(''label'', StrC ''Ca'')])),
     (347, Expr (Call (Attribute (Name ''plt'') ''xlabel'') [StrC ''time''] [])),
     (348, Expr (Call (Attribute (Name ''plt'') ''ylabel'') [StrC ''Amount of Ca [mmolal]''] [])),
     (349, Expr (Call (Attribute (Name ''plt'') ''legend'') [] [(''loc'', StrC ''center right'')])),
     (350, Expr (Call (Attribute (Name ''plt'') ''tight_layout'') [] []))
    ],
    [
     (359, Expr (Call (Attribute (Name ''plt'') ''figure'') [] [])),
     (360, Expr (Call (Attribute (Name ''plt'') ''plot'') [Name ''time'', Subscript (Name ''data'') (Name ''calcite_indx'')] [(''label'', StrC ''Calcite'')])),
     (361, Expr (Call (Attribute (Name ''plt'') ''xlabel'') [StrC ''time''] [])),
     (362, Expr (Call (Attribute (Name ''plt'') ''ylabel'') [StrC ''Mass of Calcite [g]''] [])),
     (363, Expr (Call (Attribute (Name ''plt'') ''legend'') [] [(''loc'', StrC ''center right'')])),
     (364, Expr (Call (Attribute (Name ''plt'') ''tight_layout'') [] []))
    ],
    [
     (373, Expr (Call (Attribute (Name ''plt'') ''figure'') [] [])),
     (374, Expr (Call (Attribute (Name ''plt'') ''plot'') [Name ''time'', Subscript (Name ''data'') (Name ''ph_indx'')] [(''label'', StrC ''pH'')])),
     (375, Expr (Call (Attribute (Name ''plt'') ''xlabel'') [StrC ''time''] [])),
     (376, Expr (Call (Attribute (Name ''plt'') ''ylabel'') [StrC ''ph''] [])),
     (377, Expr (Call (Attribute (Name ''plt'') ''legend'') [] [(''loc'', StrC ''center right'')])),
     (378, Expr (Call (Attribute (Name ''plt'') ''tight_layout'') [] []))
    ],
    [
     (387, Expr (Call (Attribute (Name ''plt'') ''figure'') [] [])),
     (388, Expr (Call (Attribute (Name ''plt'') ''plot'') [Name ''time'', Subscript (Name ''data'') (Name ''ca_species_indx'')] [(''label'', StrC ''Ca++'')])),
     (389, Expr (Call (Attribute (Name ''plt'') ''plot'') [Name ''time'', Subscript (Name ''data'') (Name ''hco3_indx'')] [(''label'', StrC ''HCO3-'')])),
     (390, Expr (Call (Attribute (Name ''plt'') ''xlabel'') [StrC ''time''] [])),
     (391, Expr (Call (Attribute (Name ''plt'') ''ylabel'') [StrC ''Molality [mmolal]''] [])),
     (392, Expr (Call (Attribute (Name ''plt'') ''legend'') [] [(''loc'', StrC ''center right'')])),
     (393, Expr (Call (Attribute (Name ''plt'') ''tight_layout'') [] []))
    ]
  ]"

text \<open>\<^verbatim>\<open>src/tutorial/eq.equilibriumpath.ipynb\<close>\<close>

definition eq_equilibriumpath :: notebook where
  "eq_equilibriumpath = [
    [
     (35, ImportFrom ''reaktoro'')
    ],
    [
     (55, Assign (Name ''editor'') (Call (Name ''ChemicalEditor'') [] []))
    ],
    [
     (74, Expr (Call (Attribute (Name ''editor'') ''addAqueousPhaseWithElements'') [StrC ''H O Ca C Cl''] [])),
     (75, Expr (Call (Attribute (Name ''editor'') ''addMineralPhase'') [StrC ''Calcite''] [])),
     (77, Assign (Name ''system'') (Call (Name ''ChemicalSystem'') [Name ''editor''] []))
    ],
    [
     (95, Assign (Name ''initial_problem'') (Call (Name ''EquilibriumProblem'') [Name ''system''] [])),
     (96, Expr (Call (Attribute (Name ''initial_problem'') ''setTemperature'') [FloatC (30), StrC ''celsius''] [])),
     (97, Expr (Call (Attribute (Name ''initial_problem'') ''setPressure'') [FloatC (1), StrC ''bar''] [])),
     (98, Expr (Call (Attribute (Name ''initial_problem'') ''add'') [StrC ''H2O'', IntC 1, StrC ''kg''] [])),
     (99, Expr (Call (Attribute (Name ''initial_problem'') ''add'') [StrC ''CaCO3'', IntC 1, StrC ''g''] [])),
     (101, Assign (Name ''final_problem'') (Call (Name ''EquilibriumProblem'') [Name ''system''] [])),
     (102, Expr (Call (Attribute (Name ''final_problem'') ''setTemperature'') [FloatC (30), StrC ''celsius''] [])),
     (103, Expr (Call (Attribute (Name ''final_problem'') ''setPressure'') [FloatC (1), StrC ''bar''] [])),
     (104, Expr (Call (Attribute (Name ''final_problem'') ''add'') [StrC ''H2O'', IntC 1, StrC ''kg''] [])),
     (105, Expr (Call (Attribute (Name ''final_problem'') ''add'') [StrC ''CaCO3'', IntC 1, StrC ''g''] [])),
     (106, Expr (Call (Attribute (Name ''final_problem'') ''add'') [StrC ''HCl'', IntC 1, StrC ''mmol''] []))
    ],
    [
     (124, Assign (Name ''initial_state'') (Call (Name ''equilibrate'') [Name ''initial_problem''] [])),
     (125, Assign (Name ''final_state'') (Call (Name ''equilibrate'') [Name ''final_problem''] []))
    ],
    [
     (144, Assign (Name ''path'') (Call (Name ''EquilibriumPath'') [Name ''system''] []))
    ],
    [
     (165, Assign (Name ''output'') (Call (Attribute (Name ''path'') ''output'') [] [])),
     (166, Expr (Call (Attribute (Name ''output'') ''filename'') [StrC ''result.txt''] [])),
     (167, Expr (Call (Attribute (Name ''output'') ''add'') [StrC ''elementAmount(Cl units=mmol)'', StrC ''Cl [mmol]''] [])),
     (168, Expr (Call (Attribute (Name ''output'') ''add'') [StrC ''speciesMolality(CO2(aq) units=mmolal)'', StrC ''CO2(aq) [mmol]''] [])),
     (169, Expr (Call (Attribute (Name ''output'') ''add'') [StrC ''speciesMolality(CO3-- units=mmolal)'', StrC ''CO3-- [mmol]''] [])),
     (170, Expr (Call (Attribute (Name ''output'') ''add'') [StrC ''elementMolality(Ca units=mmolal)'', StrC ''Ca [mmolal]''] [])),
     (171, Expr (Call (Attribute (Name ''output'') ''add'') [StrC ''pH''] [])),
     (172, Expr (Call (Attribute (Name ''output'') ''add'') [StrC ''speciesMass(Calcite units=g)''] []))
    ],
    [
     (200, Assign (Name ''path'') (Call (Attribute (Name ''path'') ''solve'') [Name ''initial_state'', Name ''final_state''] []))
    ],
    [
     (219, Import ''matplotlib.pyplot'' ''plt''),
     (220, Import ''numpy'' ''np'')
    ],
    [
     (236, Assign (Name ''filearray'') (Call (Attribute (Name ''np'') ''loadtxt'') [StrC ''result.txt''] [(''skiprows'', IntC 1)])),
     (237, Assign (Name ''data'') (Attribute (Name ''filearray'') ''T'')),
     (238, Assign (ListE [Name ''cl_indx'', Name ''co2aq_indx'', Name ''co3_indx'', Name ''ca_indx'', Name ''ph_indx'', Name ''calcite_indx'']) (Call (Attribute (Name ''np'') ''arange'') [IntC 6] []))
    ],
    [
     (268, Expr (Call (Attribute (Name ''plt'') ''figure'') [] [])),
     (269, Expr (Call (Attribute (Name ''plt'') ''plot'') [Subscript (Name ''data'') (Name ''ph_indx''), Subscript (Name ''data'') (Name ''cl_indx'')] [(''label'', StrC ''Cl'')])),
     (270, Expr (Call (Attribute (Name ''plt'') ''xlabel'') [StrC ''pH''] [])),
     (271, Expr (Call (Attribute (Name ''plt'') ''ylabel'') [StrC ''Amount of Cl [mmol]''] [])),
     (272, Expr (Call (Attribute (Name ''plt'') ''tight_layout'') [] []))
    ],
    [
     (290, Expr (Call (Attribute (Name ''plt'') ''figure'') [] [])),
     (291, Expr (Call (Attribute (Name ''plt'') ''plot'') [Subscript (Name ''data'') (Name ''cl_indx''), Subscript (Name ''data'') (Name ''ca_indx'')] [(''label'', StrC ''Ca'')])),
     (292, Expr (Call (Attribute (Name ''plt'') ''xlabel'') [StrC ''Amount of Cl [mmol]''] [])),
     (293, Expr (Call (Attribute (Name ''plt'') ''ylabel'') [StrC ''Concentration of Ca [mmolal]''] [])),
     (294, Expr (Call (Attribute (Name ''plt'') ''tight_layout'') [] []))
    ],
    [
     (311, Expr (Call (Attribute (Name ''plt'') ''figure'') [] [])),
     (312, Expr (Call (Attribute (Name ''plt'') ''plot'') [Subscript (Name ''data'') (Name ''ph_indx''), Subscript (Name ''data'') (Name ''co2aq_indx'')] [(''label'', StrC ''CO2(aq)'')])),
     (313, Expr (Call (Attribute (Name ''plt'') ''plot'') [Subscript (Name ''data'') (Name ''ph_indx''), Subscript (Name ''data'') (Name ''co3_indx'')] [(''label'', StrC ''CO3--'')])),
     (314, Expr (Call (Attribute (Name ''plt'') ''xlabel'') [StrC ''pH''] [])),
     (315, Expr (Call (Attribute (Name ''plt'') ''ylabel'') [StrC ''Concentration [mmolal]''] [])),
     (316, Expr (Call (Attribute (Name ''plt'') ''legend'') [] [(''loc'', StrC ''center right'')])),
     (317, Expr (Call (Attribute (Name ''plt'') ''tight_layout'') [] []))
    ],
    [
     (334, Expr (Call (Attribute (Name ''plt'') ''figure'') [] [])),
     (335, Expr (Call (Attribute (Name ''plt'') ''plot'') [Subscript (Name ''data'') (Name ''cl_indx''), Subscript (Name ''data'') (Name ''calcite_indx'')] [(''label'', StrC ''Calcite'')])),
     (336, Expr (Call (Attribute (Name ''plt'') ''xlabel'') [StrC ''HCl [mmol]''] [])),
     (337, Expr (Call (Attribute (Name ''plt'') ''ylabel'') [StrC ''Mass [g]''] [])),
     (338, Expr (Call (Attribute (Name ''plt'') ''legend'') [] [(''loc'', StrC ''center right'')])),
     (339, Expr (Call (Attribute (Name ''plt'') ''tight_layout'') [] []))
    ]
  ]"

text \<open>\<^verbatim>\<open>src/tutorial/eq.sodium-chloride-solubility-in-water.ipynb\<close>\<close>

definition eq_sodium_chloride :: notebook where
  "eq_sodium_chloride = [
    [
     (18, ImportFrom ''reaktoro'')
    ],
    [
     (34, Assign (Name ''db'') (Call (Name ''Database'') [StrC ''supcrt98.xml''] []))
    ],
    [
     (50, Assign (Name ''editor'') (Call (Name ''ChemicalEditor'') [Name ''db''] [])),
     (51, Expr (Call (Attribute (Name ''editor'') ''addAqueousPhaseWithElements'') [StrC ''H O Na Cl''] [])),
     (52, Expr (Call (Attribute (Name ''editor'') ''addMineralPhase'') [StrC ''Halite''] []))
    ],
    [
     (68, Assign (Name ''system'') (Call (Name ''ChemicalSystem'') [Name ''editor''] []))
    ],
    [
     (84, Expr (Call (Name ''print'') [StrC ''system = '', Name ''system''] []))
    ],
    [
     (100, Assign (Name ''problem'') (Call (Name ''EquilibriumProblem'') [Name ''system''] [])),
     (101, Expr (Call (Attribute (Name ''problem'') ''setTemperature'') [IntC 25, StrC ''celsius''] [])),
     (102, Expr (Call (Attribute (Name ''problem'') ''setPressure'') [IntC 1, StrC ''bar''] [])),
     (103, Expr (Call (Attribute (Name ''problem'') ''add'') [StrC ''H2O'', FloatC (1), StrC ''kg''] [])),
     (104, Expr (Call (Attribute (Name ''problem'') ''add'') [StrC ''NaCl'', FloatC (1), StrC ''mg''] []))
    ],
    [
     (134, Assign (Name ''state'') (Call (Name ''equilibrate'') [Name ''problem''] []))
    ],
    [
     (151, Expr (Call (Name ''print'') [StrC ''state = '', Name ''state''] []))
    ],
    [
     (169, Expr (Call (Attribute (Name ''problem'') ''add'') [StrC ''NaCl'', FloatC (1), StrC ''kg''] [])),
     (170, Assign (Name ''state'') (Call (Name ''equilibrate'') [Name ''problem''] [])),
     (171, Expr (Call (Name ''print'') [StrC ''state = '', Name ''state''] []))
    ],
    [
     (188, Expr (Call (Name ''print'') [JoinedStr [StrC ''Amount of NaCl(s) : '', Call (Attribute (Name ''state'') ''speciesAmount'') [StrC ''Halite''] []]] []))
    ]
  ]"

text \<open>\<^verbatim>\<open>src/tutorial/eq.evian-water-analysis.ipynb\<close>\<close>

definition eq_evian_water :: notebook where
  "eq_evian_water = [
    [
     (25, ImportFrom ''reaktoro''),
     (26, ImportFrom ''math''),
     (28, Assign (Name ''db'') (Call (Name ''Database'') [StrC ''supcrt98.xml''] [])),
     (30, Assign (Name ''editor'') (Call (Name ''ChemicalEditor'') [Name ''db''] [])),
     (32, Expr (Call (Attribute (Name ''editor'') ''addAqueousPhaseWithElements'') [StrC ''C Ca Cl H K Mg N Na O S Si''] [])),
     (33, Expr (Call (Attribute (Name ''editor'') ''addMineralPhase'') [StrC ''Calcite''] [])),
     (34, Expr (Call (Attribute (Name ''editor'') ''addMineralPhase'') [StrC ''Dolomite''] [])),
     (35, Expr (Call (Attribute (Name ''editor'') ''addMineralPhase'') [StrC ''Quartz''] [])),
     (37, Assign (Name ''system'') (Call (Name ''ChemicalSystem'') [Name ''editor''] []))
    ],
    [
     (54, Assign (Name ''reaction_equation_calcite'') (Call (Name ''ReactionEquation'') [StrC ''Calcite + H+ = Ca++ + HCO3-''] [])),
     (55, Assign (Name ''reaction_equation_dolomite'') (Call (Name ''ReactionEquation'') [StrC ''Dolomite + 2*H+ = Ca++ + Mg++ + 2*HCO3-''] [])),
     (56, Assign (Name ''reaction_equation_quartz'') (Call (Name ''ReactionEquation'') [StrC ''Quartz + H2O(l) = H+ + HSiO3-''] [])),
     (59, Assign (Name ''reaction_calcite'') (Call (Name ''Reaction'') [Name ''reaction_equation_calcite'', Name ''system''] [])),
     (60, Assign (Name ''reaction_dolomite'') (Call (Name ''Reaction'') [Name ''reaction_equation_dolomite'', Name ''system''] [])),
     (61, Assign (Name ''reaction_quartz'') (Call (Name ''Reaction'') [Name ''reaction_equation_quartz'', Name ''system''] []))
    ],
    [
     (78, Assign (Name ''problem'') (Call (Name ''EquilibriumInverseProblem'') [Name ''system''] [])),
     (80, Expr (Call (Attribute (Name ''problem'') ''setTemperature'') [IntC 25, StrC ''celsius''] [])),
     (81, Expr (Call (Attribute (Name ''problem'') ''setPressure'') [FloatC (101325 / 10^5), StrC ''bar''] [])),
     (82, Expr (Call (Attribute (Name ''problem'') ''add'') [StrC ''H2O'', FloatC (1), StrC ''kg''] []))
    ],
    [
     (101, Expr (Call (Attribute (Name ''problem'') ''add'') [StrC ''Ca++'', BinOp (BinOp (IntC 80) Mult (FloatC (1 / 10^6))) Div (Call (Attribute (Call (Attribute (Name ''system'') ''species'') [StrC ''Ca++''] []) ''molarMass'') [] []), StrC ''mol''] [])),
     (103, Expr (Call (Attribute (Name ''problem'') ''add'') [StrC ''Cl-'', BinOp (BinOp (FloatC (68 / 10^1)) Mult (FloatC (1 / 10^6))) Div (Call (Attribute (Call (Attribute (Name ''system'') ''species'') [StrC ''Cl-''] []) ''molarMass'') [] []), StrC ''mol''] [])),
     (105, Expr (Call (Attribute (Name ''problem'') ''add'') [StrC ''HCO3-'', BinOp (BinOp (IntC 350) Mult (FloatC (1 / 10^6))) Div (Call (Attribute (Call (Attribute (Name ''system'') ''species'') [StrC ''HCO3-''] []) ''molarMass'') [] []), StrC ''mol''] [])),
     (107, Expr (Call (Attribute (Name ''problem'') ''add'') [StrC ''Mg++'', BinOp (BinOp (IntC 26) Mult (FloatC (1 / 10^6))) Div (Call (Attribute (Call (Attribute (Name ''system'') ''species'') [StrC ''Mg++''] []) ''molarMass'') [] []), StrC ''mol''] [])),
     (109, Expr (Call (Attribute (Name ''problem'') ''add'') [StrC ''NO3-'', BinOp (BinOp (FloatC (37 / 10^1)) Mult (FloatC (1 / 10^6))) Div (Call (Attribute (Call (Attribute (Name ''system'') ''species'') [StrC ''NO3-''] []) ''molarMass'') [] []), StrC ''mol''] [])),
     (111, Expr (Call (Attribute (Name ''problem'') ''add'') [StrC ''K+'', BinOp (BinOp (IntC 1) Mult (FloatC (1 / 10^6))) Div (Call (Attribute (Call (Attribute (Name ''system'') ''species'') [StrC ''K+''] []) ''molarMass'') [] []), StrC ''mol''] [])),
     (113, Expr (Call (Attribute (Name ''problem'') ''add'') [StrC ''Na+'', BinOp (BinOp (FloatC (65 / 10^1)) Mult (FloatC (1 / 10^6))) Div (Call (Attribute (Call (Attribute (Name ''system'') ''species'') [StrC ''Na+''] []) ''molarMass'') [] []), StrC ''mol''] [])),
     (115, Expr (Call (Attribute (Name ''problem'') ''add'') [StrC ''SO4--'', BinOp (BinOp (FloatC (126 / 10^1)) Mult (FloatC (1 / 10^6))) Div (Call (Attribute (Call (Attribute (Name ''system'') ''species'') [StrC ''S2O4--''] []) ''molarMass'') [] []), StrC ''mol''] []))
    ],
    [
     (132, Expr (Call (Attribute (Name ''problem'') ''add'') [StrC ''Si'', BinOp (BinOp (IntC 15) Mult (FloatC (1 / 10^3))) Div (FloatC (280855 / 10^4)), StrC ''mol''] []))
    ],
    [
     (148, Expr (Call (Attribute (Name ''problem'') ''add'') [StrC ''Calcite'', FloatC (0), StrC ''mol''] [])),
     (149, Expr (Call (Attribute (Name ''problem'') ''add'') [StrC ''Dolomite'', FloatC (0), StrC ''mol''] [])),
     (150, Expr (Call (Attribute (Name ''problem'') ''add'') [StrC ''Quartz'', FloatC (0), StrC ''mol''] [])),
     (151, Expr (Call (Attribute (Name ''problem'') ''pH'') [FloatC (72 / 10^1), StrC ''HCl'', StrC ''NaOH''] []))
    ],
    [
     (169, Assign (Name ''state'') (Call (Name ''equilibrate'') [Name ''problem''] [])),
     (170, Expr (Call (Name ''print'') [Name ''state''] []))
    ],
    [
     (192, Assign (Name ''props'') (Call (Attribute (Name ''state'') ''properties'') [] [])),
     (194, Assign (Name ''lnK_calcite'') (Call (Attribute (Name ''reaction_calcite'') ''lnEquilibriumConstant'') [Name ''props''] [])),
     (196, Assign (Name ''lnQ_calcite'') (Call (Attribute (Name ''reaction_calcite'') ''lnReactionQuotient'') [Name ''props''] [])),
     (198, Assign (Name ''SR_calcite'') (BinOp (Attribute (Name ''lnQ_calcite'') ''val'') Sub (Attribute (Name ''lnK_calcite'') ''val''))),
     (199, Assign (Name ''SI_calcite'') (Call (Name ''exp'') [Name ''SR_calcite''] [])),
     (202, Assign (Name ''lnK_dolomite'') (Call (Attribute (Name ''reaction_dolomite'') ''lnEquilibriumConstant'') [Name ''props''] [])),
     (203, Assign (Name ''lnQ_dolomite'') (Call (Attribute (Name ''reaction_dolomite'') ''lnReactionQuotient'') [Name ''props''] [])),
     (204, Assign (Name ''SR_dolomite'') (BinOp (Attribute (Name ''lnQ_dolomite'') ''val'') Sub (Attribute (Name ''lnK_dolomite'') ''val''))),
     (205, Assign (Name ''SI_dolomite'') (Call (Name ''exp'') [Name ''SR_dolomite''] [])),
     (208, Assign (Name ''lnK_quartz'') (Call (Attribute (Name ''reaction_quartz'') ''lnEquilibriumConstant'') [Name ''props''] [])),
     (209, Assign (Name ''lnQ_quartz'') (Call (Attribute (Name ''reaction_quartz'') ''lnReactionQuotient'') [Name ''props''] [])),
     (210, Assign (Name ''SR_quartz'') (BinOp (Attribute (Name ''lnQ_quartz'') ''val'') Sub (Attribute (Name ''lnK_quartz'') ''val''))),
     (211, Assign (Name ''SI_quartz'') (Call (Name ''exp'') [Name ''SR_quartz''] [])),
     (213, Expr (Call (Name ''print'') [StrC ''Saturation Index (Calcite) = '', Name ''SI_calcite''] [])),
     (214, Expr (Call (Name ''print'') [StrC ''Saturation Index (Dolomite) = '', Name ''SI_dolomite''] [])),
     (215, Expr (Call (Name ''print'') [StrC ''Saturation Index (Quartz) = '', Name ''SI_quartz''] []))
    ],
    [
     (235, Assign (Name ''phase_stability_indices'') (Call (Attribute (Name ''state'') ''phaseStabilityIndices'') [] [])),
     (238, Assign (Name ''calcite_phase_index'') (Call (Attribute (Name ''system'') ''indexPhase'') [StrC ''Calcite''] [])),
     (239, Assign (Name ''dolomite_phase_index'') (Call (Attribute (Name ''system'') ''indexPhase'') [StrC ''Dolomite''] [])),
     (240, Assign (Name ''quartz_phase_index'') (Call (Attribute (Name ''system'') ''indexPhase'') [StrC ''Quartz''] [])),
     (243, Expr (Call (Name ''print'') [StrC ''Stability Index (Calcite)  = '', Subscript (Name ''phase_stability_indices'') (Name ''calcite_phase_index'')] [])),
     (244, Expr (Call (Name ''print'') [StrC ''Stability Index (Dolomite) = '', Subscript (Name ''phase_stability_indices'') (Name ''dolomite_phase_index'')] [])),
     (245, Expr (Call (Name ''print'') [StrC ''Stability Index (Quartz)   = '', Subscript (Name ''phase_stability_indices'') (Name ''quartz_phase_index'')] []))
    ],
    [
     (264, Assign (Name ''ex1'') (StrC ''(\<newline>SOLUTION 1\<newline>    temp      25\<newline>    pH        7.2\<newline>    pe        4\<newline>    redox     pe\<newline>    units     mg/kgw\<newline>    density   1\<newline>    C(4)      350\<newline>    Ca        80\<newline>    Cl        6.8\<newline>    K         1\<newline>    Mg        26\<newline>    N(5)      3.7\<newline>    Na        6.5\<newline>    S(6)      12.6\<newline>    Si        15\<newline>    -water    1 # kg\<newline>EQUILIBRIUM_PHASES 1\<newline>    Dolomite 0 0\<newline>    Calcite 0 0\<newline>    Quartz 0 0\<newline>end\<newline>)''))
    ],
    [
     (303, Assign (Name ''phreeqc'') (Call (Name ''Phreeqc'') [StrC ''../databases/phreeqc/phreeqc.dat''] []))
    ],
    [
     (321, Expr (Call (Attribute (Name ''phreeqc'') ''execute'') [Name ''ex1''] []))
    ],
    [
     (339, Assign (Name ''system'') (Call (Name ''ChemicalSystem'') [Name ''phreeqc''] []))
    ],
    [
     (356, Assign (Name ''state'') (Call (Attribute (Name ''phreeqc'') ''state'') [Name ''system''] []))
    ],
    [
     (373, Expr (Call (Name ''print'') [Name ''state''] []))
    ]
  ]"

definition repository :: "notebook list" where
  "repository = [kin_calcite_hcl, eq_equilibriumpath, eq_sodium_chloride, eq_evian_water]"

definition program :: "notebook \<Rightarrow> (nat \<times> stmt) list" where
  "program nb = concat nb"

section \<open>Traversals\<close>

text \<open>Every expression that occurs inside an expression, itself first.\<close>

fun subexprs :: "expr \<Rightarrow> expr list" where
  "subexprs (JoinedStr es) = JoinedStr es # concat (map subexprs es)"
| "subexprs (Attribute e a) = Attribute e a # subexprs e"
| "subexprs (Call f args kws) =
     Call f args kws # subexprs f @ concat (map subexprs args) @ concat (map (\<lambda>kw. subexprs (snd kw)) kws)"
| "subexprs (BinOp l opr r) = BinOp l opr r # subexprs l @ subexprs r"
| "subexprs (ListE es) = ListE es # concat (map subexprs es)"
| "subexprs (TupleE es) = TupleE es # concat (map subexprs es)"
| "subexprs (Subscript e i) = Subscript e i # subexprs e @ subexprs i"
| "subexprs e = [e]"

text \<open>Every statement that occurs inside a statement, itself first.\<close>

fun substmts :: "stmt \<Rightarrow> stmt list" where
  "substmts (IfS c body orelse) = IfS c body orelse # concat (map substmts body) @ concat (map substmts orelse)"
| "substmts (ForS t it body) = ForS t it body # concat (map substmts body)"
| "substmts (WhileS c body) = WhileS c body # concat (map substmts body)"
| "substmts (FunctionDef f ps body) = FunctionDef f ps body # concat (map substmts body)"
| "substmts (ClassDef c body) = ClassDef c body # concat (map substmts body)"
| "substmts (TryS body handler) = TryS body handler # concat (map substmts body) @ concat (map substmts handler)"
| "substmts (WithS e body) = WithS e body # concat (map substmts body)"
| "substmts s = [s]"

text \<open>The expressions a statement holds directly, and all expressions anywhere in it.\<close>

fun own_exprs :: "stmt \<Rightarrow> expr list" where
  "own_exprs (ImportFrom m) = []"
| "own_exprs (Import m a) = []"
| "own_exprs (Assign t v) = [t, v]"
| "own_exprs (Expr e) = [e]"
| "own_exprs (IfS c body orelse) = [c]"
| "own_exprs (ForS t it body) = [t, it]"
| "own_exprs (WhileS c body) = [c]"
| "own_exprs (FunctionDef f ps body) = []"
| "own_exprs (ClassDef c body) = []"
| "own_exprs (TryS body handler) = []"
| "own_exprs (WithS e body) = [e]"
| "own_exprs (Raise e) = [e]"

definition stmt_exprs :: "stmt \<Rightarrow> expr list" where
  "stmt_exprs s = concat (map subexprs (concat (map own_exprs (substmts s))))"

definition mentions :: "string \<Rightarrow> stmt \<Rightarrow> bool" where
  "mentions x s = (Name x \<in> set (stmt_exprs s))"

definition at_lines :: "nat \<Rightarrow> nat \<Rightarrow> (nat \<times> stmt) list \<Rightarrow> (nat \<times> stmt) list" where
  "at_lines lo hi prog = filter (\<lambda>ls. lo \<le> fst ls \<and> fst ls \<le> hi) prog"

definition lines_where :: "(stmt \<Rightarrow> bool) \<Rightarrow> (nat \<times> stmt) list \<Rightarrow> nat list" where
  "lines_where p prog = map fst (filter (\<lambda>ls. p (snd ls)) prog)"

section \<open>Shape of the notebooks\<close>



fun is_try :: "stmt \<Rightarrow> bool" where
  "is_try (TryS body handler) = True"
| "is_try s = False"

fun is_raise :: "stmt \<Rightarrow> bool" where
  "is_raise (Raise e) = True"
| "is_raise s = False"

definition handler_free :: "stmt list \<Rightarrow> bool" where
  "handler_free ss = (\<not> list_ex is_try (concat (map substmts ss)))"

subsection \<open>Calls\<close>

fun is_call_to :: "string \<Rightarrow> expr \<Rightarrow> bool" where
  "is_call_to f (Call (Name g) args kws) = (f = g)"
| "is_call_to f e = False"

fun is_method_call :: "string \<Rightarrow> expr \<Rightarrow> bool" where
  "is_method_call m (Call (Attribute obj n) args kws) = (m = n)"
| "is_method_call m e = False"


text \<open>
  The solver entry points the notebooks use: the function \<^verbatim>\<open>equilibrate\<close>, the method
  \<^verbatim>\<open>solve\<close> of a kinetic or equilibrium path, and the method \<^verbatim>\<open>execute\<close> of the PHREEQC
  instance. Output is a call of \<^verbatim>\<open>print\<close> or of a function of \<^verbatim>\<open>plt\<close>.
\<close>

definition is_solve_call :: "expr \<Rightarrow> bool" where
  "is_solve_call e = (is_call_to ''equilibrate'' e \<or> is_method_call ''solve'' e \<or> is_method_call ''execute'' e)"


definition solves :: "stmt \<Rightarrow> bool" where
  "solves s = list_ex is_solve_call (stmt_exprs s)"


definition path_solves :: "stmt \<Rightarrow> bool" where
  "path_solves s = list_ex (is_method_call ''solve'') (stmt_exprs s)"


subsection \<open>The four phases\<close>







subsection \<open>Definitions before uses\<close>

fun name_of :: "expr \<Rightarrow> string list" where
  "name_of (Name x) = [x]"
| "name_of e = []"


text \<open>
  The names a statement binds (the targets of an assignment, also inside a tuple or list
  target, and the alias of an import) and the names it reads.
\<close>

fun target_names :: "expr \<Rightarrow> string list" where
  "target_names (Name x) = [x]"
| "target_names (TupleE es) = concat (map target_names es)"
| "target_names (ListE es) = concat (map target_names es)"
| "target_names e = []"

fun binds :: "stmt \<Rightarrow> string list" where
  "binds (Assign t v) = target_names t"
| "binds (Import m a) = [a]"
| "binds s = []"












subsection \<open>Construction before use\<close>

text \<open>
  An object is built by the statement that binds it and by the statements that configure it:
  the expression statements that call a method on it for effect (neither a solve nor output).
  From a chain of calls the configured object is the name at its root.
\<close>

fun root_name :: "expr \<Rightarrow> string list" where
  "root_name (Name x) = [x]"
| "root_name (Attribute e a) = root_name e"
| "root_name (Call f args kws) = root_name f"
| "root_name (Subscript e i) = root_name e"
| "root_name e = []"









section \<open>Kinds of the values bound to variables\<close>

text \<open>
  What a variable can hold: a value handed out by the chemistry library (an opaque object, or
  a number or array of its making), a Python number, a string, a numpy value (an array, or an
  element of one), or a container built by the notebook's own code (a list or tuple display,
  or what a container builtin returns).
\<close>

datatype kind = KObject | KNumber | KString | KArray | KContainer

type_synonym kenv = "(string \<times> kind) list"

definition lookup_kind :: "kenv \<Rightarrow> string \<Rightarrow> kind" where
  "lookup_kind env x = (case map_of env x of Some k \<Rightarrow> k | None \<Rightarrow> KObject)"

definition container_builtins :: "string list" where
  "container_builtins = [''list'', ''tuple'', ''dict'', ''set'', ''frozenset'', ''range'', ''zip'',
     ''enumerate'', ''map'', ''filter'', ''sorted'', ''reversed'']"

definition number_builtins :: "string list" where
  "number_builtins = [''exp'', ''log'', ''sqrt'', ''float'', ''int'', ''abs'', ''len'', ''round'']"

fun call_kind :: "expr \<Rightarrow> kind" where
  "call_kind (Name f) =
     (if f \<in> set container_builtins then KContainer
      else if f \<in> set number_builtins then KNumber
      else if f = ''str'' then KString
      else KObject)"
| "call_kind (Attribute (Name m) f) = (if m = ''numpy'' \<or> m = ''np'' then KArray else KObject)"
| "call_kind f = KObject"

text \<open>The kind of an operator's result: the first of the kinds below that an operand has.\<close>

definition join_kind :: "kind \<Rightarrow> kind \<Rightarrow> kind" where
  "join_kind a b =
     (if a = KContainer \<or> b = KContainer then KContainer
      else if a = KArray \<or> b = KArray then KArray
      else if a = KObject \<or> b = KObject then KObject
      else if a = KString \<or> b = KString then KString
      else KNumber)"

text \<open>An attribute or an element of a value is of the value's kind, but for a number.\<close>

fun part_kind :: "kind \<Rightarrow> kind" where
  "part_kind KNumber = KObject"
| "part_kind k = k"

fun kind_of :: "kenv \<Rightarrow> expr \<Rightarrow> kind" where
  "kind_of env (Name x) = lookup_kind env x"
| "kind_of env (IntC n) = KNumber"
| "kind_of env (FloatC q) = KNumber"
| "kind_of env (StrC s) = KString"
| "kind_of env (JoinedStr es) = KString"
| "kind_of env (Attribute e a) = part_kind (kind_of env e)"
| "kind_of env (Call f args kws) = call_kind f"
| "kind_of env (BinOp l opr r) = join_kind (kind_of env l) (kind_of env r)"
| "kind_of env (ListE es) = KContainer"
| "kind_of env (TupleE es) = KContainer"
| "kind_of env (Subscript e i) = part_kind (kind_of env e)"
| "kind_of env SliceAll = KContainer"

text \<open>
  The bindings a statement makes. A tuple or list of targets takes the elements of a display
  on the right one by one, and otherwise the elements of the value on the right.
\<close>

fun is_sequence_target :: "expr \<Rightarrow> bool" where
  "is_sequence_target (TupleE ts) = True"
| "is_sequence_target (ListE ts) = True"
| "is_sequence_target t = False"

fun display_elements :: "expr \<Rightarrow> expr list option" where
  "display_elements (TupleE vs) = Some vs"
| "display_elements (ListE vs) = Some vs"
| "display_elements v = None"

definition bindings_of :: "kenv \<Rightarrow> stmt \<Rightarrow> (string \<times> kind) list" where
  "bindings_of env s =
     (case s of
        Assign t v \<Rightarrow>
          (if is_sequence_target t then
             (case display_elements v of
                Some vs \<Rightarrow> zip (target_names t) (map (kind_of env) vs)
              | None \<Rightarrow> map (\<lambda>x. (x, part_kind (kind_of env v))) (target_names t))
           else map (\<lambda>x. (x, kind_of env v)) (target_names t))
      | Import m a \<Rightarrow> [(a, KObject)]
      | _ \<Rightarrow> [])"

fun all_bindings :: "kenv \<Rightarrow> (nat \<times> stmt) list \<Rightarrow> (nat \<times> string \<times> kind) list" where
  "all_bindings env [] = []"
| "all_bindings env ((l, s) # rest) =
     map (Pair l) (bindings_of env s) @ all_bindings (bindings_of env s @ env) rest"

definition binding_kinds :: "notebook \<Rightarrow> (nat \<times> string \<times> kind) list" where
  "binding_kinds nb = all_bindings [] (program nb)"

fun is_definition :: "stmt \<Rightarrow> bool" where
  "is_definition (FunctionDef f ps body) = True"
| "is_definition (ClassDef c body) = True"
| "is_definition s = False"

definition no_definitions :: "notebook \<Rightarrow> bool" where
  "no_definitions nb = (\<not> list_ex is_definition (concat (map substmts (map snd (program nb)))))"

definition binds_own_container :: "nat \<times> string \<times> kind \<Rightarrow> bool" where
  "binds_own_container b = (snd (snd b) = KContainer)"

definition no_own_structures :: "notebook \<Rightarrow> bool" where
  "no_own_structures nb = (no_definitions nb \<and> \<not> list_ex binds_own_container (binding_kinds nb))"

section \<open>Helpers\<close>

fun tagged :: "(stmt \<Rightarrow> 'a list) \<Rightarrow> (nat \<times> stmt) list \<Rightarrow> (nat \<times> 'a) list" where
  "tagged f [] = []"
| "tagged f ((l, s) # rest) = map (Pair l) (f s) @ tagged f rest"

text \<open>
  A statement is a bare call when it is a call, or the assignment of a call to one name, and
  every argument of that call is a name or a literal.
\<close>

fun atomic :: "expr \<Rightarrow> bool" where
  "atomic (Name x) = True"
| "atomic (IntC n) = True"
| "atomic (FloatC q) = True"
| "atomic (StrC s) = True"
| "atomic e = False"

fun bare_call :: "stmt \<Rightarrow> bool" where
  "bare_call (Expr (Call f args kws)) = (list_all atomic args \<and> kws = [])"
| "bare_call (Assign (Name x) (Call f args kws)) = (list_all atomic args \<and> kws = [])"
| "bare_call s = False"

definition solves_by_bare_calls :: "notebook \<Rightarrow> bool" where
  "solves_by_bare_calls nb = list_all bare_call (filter solves (map snd (program nb)))"

text \<open>The calls of the method \<^verbatim>\<open>add\<close> with three arguments: what is added, how much, in which unit.\<close>

fun add_call :: "expr \<Rightarrow> (expr \<times> expr \<times> expr) list" where
  "add_call (Call (Attribute obj m) [what, amount, unit] kws) =
     (if m = ''add'' then [(what, amount, unit)] else [])"
| "add_call e = []"

definition stmt_adds :: "stmt \<Rightarrow> (expr \<times> expr \<times> expr) list" where
  "stmt_adds s = concat (map add_call (stmt_exprs s))"

definition added :: "notebook \<Rightarrow> (nat \<times> expr \<times> expr \<times> expr) list" where
  "added nb = tagged stmt_adds (program nb)"

definition bindings_at :: "nat \<Rightarrow> nat \<Rightarrow> notebook \<Rightarrow> (nat \<times> string \<times> kind) list" where
  "bindings_at lo hi nb = filter (\<lambda>b. lo \<le> fst b \<and> fst b \<le> hi) (binding_kinds nb)"

section \<open>Who serves each step\<close>

text \<open>
  Every operation a statement performs is a step: an import, a call, an attribute access, a
  subscript, an arithmetic operator, an f-string, a list or tuple display. A call, attribute or
  subscript is served by whoever owns the function or object it is applied to: the chemistry
  library, numpy, matplotlib, or Python itself (a builtin, a function of the standard library,
  or a value the notebook made: a literal, the result of arithmetic, a display).

  Modelled from the spec: which names belong to the chemistry library. Its section 6 names the
  library's API surface (\<^verbatim>\<open>Database\<close>, \<^verbatim>\<open>ChemicalEditor\<close>, \<^verbatim>\<open>ChemicalSystem\<close>,
  \<^verbatim>\<open>EquilibriumProblem\<close>, \<^verbatim>\<open>KineticPath\<close>, \<^verbatim>\<open>Phreeqc\<close>, etc.); the list below holds
  the library names the notebooks call. Every other name that a notebook does not bind is
  Python's, but for \<^verbatim>\<open>numpy\<close>, which the kinetics notebook uses without importing it.
\<close>

datatype owner = Chemistry | Numpy | Matplotlib | Python

definition reaktoro_api :: "string list" where
  "reaktoro_api = [''Database'', ''ChemicalEditor'', ''ChemicalSystem'', ''ReactionSystem'',
     ''Partition'', ''EquilibriumProblem'', ''EquilibriumInverseProblem'', ''KineticPath'',
     ''EquilibriumPath'', ''ReactionEquation'', ''Reaction'', ''Phreeqc'', ''equilibrate'']"

definition global_owner :: "string \<Rightarrow> owner" where
  "global_owner x =
     (if x \<in> set reaktoro_api then Chemistry else if x = ''numpy'' then Numpy else Python)"

definition module_owner :: "string \<Rightarrow> owner" where
  "module_owner m =
     (if m = ''reaktoro'' then Chemistry
      else if m = ''numpy'' then Numpy
      else if m = ''matplotlib.pyplot'' then Matplotlib
      else Python)"

type_synonym oenv = "(string \<times> owner) list"

text \<open>
  The owner of what an expression yields. What a call, an attribute or a subscript yields
  belongs to the owner of the function or object; everything else is made by the notebook.
\<close>

fun owner_of :: "oenv \<Rightarrow> expr \<Rightarrow> owner" where
  "owner_of env (Name x) = (case map_of env x of Some ow \<Rightarrow> ow | None \<Rightarrow> global_owner x)"
| "owner_of env (Attribute e a) = owner_of env e"
| "owner_of env (Call f args kws) = owner_of env f"
| "owner_of env (Subscript e i) = owner_of env e"
| "owner_of env e = Python"

definition owners_bound :: "oenv \<Rightarrow> stmt \<Rightarrow> (string \<times> owner) list" where
  "owners_bound env s =
     (case s of
        Assign t v \<Rightarrow>
          (if is_sequence_target t then
             (case display_elements v of
                Some vs \<Rightarrow> zip (target_names t) (map (owner_of env) vs)
              | None \<Rightarrow> map (\<lambda>x. (x, owner_of env v)) (target_names t))
           else map (\<lambda>x. (x, owner_of env v)) (target_names t))
      | Import m a \<Rightarrow> [(a, module_owner m)]
      | _ \<Rightarrow> [])"

text \<open>
  A step is served by an owner (with the name of the function, method or attribute, and
  \<^verbatim>\<open>[]\<close> for a subscript), or is arithmetic, formatting or a display of the notebook's own.
  The lookup of a method is part of its call.
\<close>

datatype step = Served owner string | Arithmetic | Formatting | Display

fun callee_name :: "expr \<Rightarrow> string" where
  "callee_name (Name f) = f"
| "callee_name (Attribute e m) = m"
| "callee_name e = ''''"

fun steps :: "oenv \<Rightarrow> expr \<Rightarrow> step list" where
  "steps env (Call f args kws) =
     Served (owner_of env f) (callee_name f)
       # (case f of Attribute e m \<Rightarrow> steps env e | _ \<Rightarrow> steps env f)
       @ concat (map (steps env) args) @ concat (map (\<lambda>kw. steps env (snd kw)) kws)"
| "steps env (Attribute e a) = Served (owner_of env e) a # steps env e"
| "steps env (Subscript e i) = Served (owner_of env e) ''[]'' # steps env e @ steps env i"
| "steps env (BinOp l opr r) = Arithmetic # steps env l @ steps env r"
| "steps env (JoinedStr es) = Formatting # concat (map (steps env) es)"
| "steps env (ListE es) = Display # concat (map (steps env) es)"
| "steps env (TupleE es) = Display # concat (map (steps env) es)"
| "steps env e = []"

text \<open>The steps of a statement: its import, or the steps of the value it computes.\<close>

fun stmt_values :: "stmt \<Rightarrow> expr list" where
  "stmt_values (Assign t v) = [v]"
| "stmt_values s = own_exprs s"

fun import_step :: "stmt \<Rightarrow> step list" where
  "import_step (ImportFrom m) = [Served (module_owner m) ''import'']"
| "import_step (Import m a) = [Served (module_owner m) ''import'']"
| "import_step s = []"

definition stmt_steps :: "oenv \<Rightarrow> stmt \<Rightarrow> step list" where
  "stmt_steps env s =
     concat (map (\<lambda>t. import_step t @ concat (map (steps env) (stmt_values t))) (substmts s))"

fun all_steps :: "oenv \<Rightarrow> (nat \<times> stmt) list \<Rightarrow> (nat \<times> step) list" where
  "all_steps env [] = []"
| "all_steps env ((l, s) # rest) =
     map (Pair l) (stmt_steps env s) @ all_steps (owners_bound env s @ env) rest"

definition steps_in :: "notebook \<Rightarrow> (nat \<times> step) list" where
  "steps_in nb = all_steps [] (program nb)"

text \<open>The lines that hold a step of a given sort, and the Python functions called, by line.\<close>

definition lines_with :: "(step \<Rightarrow> bool) \<Rightarrow> notebook \<Rightarrow> nat list" where
  "lines_with p nb = remdups_adj (map fst (filter (\<lambda>ls. p (snd ls)) (steps_in nb)))"

fun served_by :: "owner \<Rightarrow> step \<Rightarrow> bool" where
  "served_by ow (Served ow' n) = (ow = ow')"
| "served_by ow st = False"

fun is_arithmetic :: "step \<Rightarrow> bool" where
  "is_arithmetic Arithmetic = True"
| "is_arithmetic st = False"

fun is_formatting :: "step \<Rightarrow> bool" where
  "is_formatting Formatting = True"
| "is_formatting st = False"

fun is_display :: "step \<Rightarrow> bool" where
  "is_display Display = True"
| "is_display st = False"

fun python_name :: "nat \<times> step \<Rightarrow> (nat \<times> string) list" where
  "python_name (l, Served Python n) = [(l, n)]"
| "python_name ls = []"

definition python_steps :: "notebook \<Rightarrow> (nat \<times> string) list" where
  "python_steps nb = concat (map python_name (steps_in nb))"

text \<open>The solver steps: the calls of \<^verbatim>\<open>equilibrate\<close>, \<^verbatim>\<open>solve\<close> and \<^verbatim>\<open>execute\<close>.\<close>

fun solver_step :: "nat \<times> step \<Rightarrow> bool" where
  "solver_step (l, Served ow n) = (n = ''equilibrate'' \<or> n = ''solve'' \<or> n = ''execute'')"
| "solver_step ls = False"

definition solver_steps :: "notebook \<Rightarrow> (nat \<times> step) list" where
  "solver_steps nb = filter solver_step (steps_in nb)"

text \<open>
  The claim that every computational step is a call into the chemistry library: no step is
  arithmetic, and every served step that is not output (a \<^verbatim>\<open>print\<close>, a matplotlib call)
  or an import is served by the chemistry library. Displays and formatting only pass data on.
\<close>

fun own_computation :: "step \<Rightarrow> bool" where
  "own_computation Arithmetic = True"
| "own_computation (Served Chemistry n) = False"
| "own_computation (Served Matplotlib n) = False"
| "own_computation (Served Numpy n) = (n \<noteq> ''import'')"
| "own_computation (Served Python n) = (n \<noteq> ''print'' \<and> n \<noteq> ''import'')"
| "own_computation st = False"

definition every_computation_by_chemistry :: "notebook \<Rightarrow> bool" where
  "every_computation_by_chemistry nb = (\<not> list_ex own_computation (map snd (steps_in nb)))"

text \<open>An expression built from number literals and operators alone.\<close>

fun literal_or_operator :: "expr \<Rightarrow> bool" where
  "literal_or_operator (IntC n) = True"
| "literal_or_operator (FloatC q) = True"
| "literal_or_operator (BinOp l opr r) = True"
| "literal_or_operator e = False"

definition literals_only :: "expr \<Rightarrow> bool" where
  "literals_only e = list_all literal_or_operator (subexprs e)"

section \<open>File operations\<close>

text \<open>
  What a call does to files. The notebook's own code touches a file through the builtin
  \<^verbatim>\<open>open\<close> (writing when its mode, positional or keyword, holds one of \<^verbatim>\<open>w a x +\<close>), or
  through the readers and writers of numpy and matplotlib. The chemistry library reads its
  database files, declares an output file when a name is given to the method \<^verbatim>\<open>filename\<close>
  of an output object (the path writes it when solved), and writes a file directly when a
  method \<^verbatim>\<open>output\<close> is given arguments. The operand is the expression given as file.

  Modelled from the spec: the file behaviour of the calls of the external libraries, which
  are not in the repository. Section 6 of the spec has the library write flat-text output
  files through its output-configuration objects only; the calls listed as quiet below touch
  no file. A call that is in none of the lists has an unknown effect.
\<close>

datatype file_effect =
    NotebookReads expr
  | NotebookWrites expr
  | LibraryReads expr
  | OutputFile expr
  | LibraryWrites expr
  | Unknown expr

definition readers :: "string list" where
  "readers = [''loadtxt'', ''genfromtxt'', ''load'', ''fromfile'']"

definition writers :: "string list" where
  "writers = [''savetxt'', ''save'', ''savez'', ''savez_compressed'', ''tofile'', ''dump'', ''savefig'']"

definition database_readers :: "string list" where
  "database_readers = [''Database'', ''Phreeqc'']"

definition quiet_functions :: "string list" where
  "quiet_functions = [''ChemicalEditor'', ''ChemicalSystem'', ''ReactionSystem'', ''Partition'',
     ''EquilibriumProblem'', ''EquilibriumInverseProblem'', ''KineticPath'', ''EquilibriumPath'',
     ''ReactionEquation'', ''Reaction'', ''equilibrate'', ''print'', ''exp'']"

definition quiet_methods :: "string list" where
  "quiet_methods = [''addAqueousPhaseWithElements'', ''addAqueousPhaseWithElementsOf'',
     ''addMineralPhase'', ''addMineralReaction'', ''setEquation'', ''addMechanism'',
     ''setSpecificSurfaceArea'', ''setKineticSpecies'', ''setPartition'', ''setTemperature'',
     ''setPressure'', ''add'', ''pH'', ''setSpeciesMass'', ''species'', ''molarMass'',
     ''properties'', ''lnEquilibriumConstant'', ''lnReactionQuotient'', ''phaseStabilityIndices'',
     ''indexPhase'', ''state'', ''speciesAmount'', ''solve'', ''execute'']"

definition quiet_numpy :: "string list" where
  "quiet_numpy = [''arange'']"

definition quiet_matplotlib :: "string list" where
  "quiet_matplotlib = [''figure'', ''plot'', ''xlabel'', ''ylabel'', ''legend'', ''tight_layout'']"

text \<open>The file and the mode of a call of \<^verbatim>\<open>open\<close>, positional or by keyword.\<close>

definition keyword :: "string \<Rightarrow> (string \<times> expr) list \<Rightarrow> expr list" where
  "keyword k kws = map snd (filter (\<lambda>kw. fst kw = k) kws)"

definition open_file :: "expr list \<Rightarrow> (string \<times> expr) list \<Rightarrow> expr list" where
  "open_file args kws = take 1 (args @ keyword ''file'' kws)"

definition open_mode :: "expr list \<Rightarrow> (string \<times> expr) list \<Rightarrow> expr list" where
  "open_mode args kws = take 1 (drop 1 args @ keyword ''mode'' kws)"

fun mode_writes :: "expr \<Rightarrow> bool" where
  "mode_writes (StrC m) = list_ex (\<lambda>c. c \<in> set ''wax+'') m"
| "mode_writes e = True"

definition open_effect :: "expr \<Rightarrow> expr list \<Rightarrow> (string \<times> expr) list \<Rightarrow> file_effect list" where
  "open_effect c args kws =
     (case open_file args kws of
        [] \<Rightarrow> [Unknown c]
      | f # _ \<Rightarrow> (if list_ex mode_writes (open_mode args kws) then [NotebookWrites f] else [NotebookReads f]))"

text \<open>
  The effect of a call, given who owns what (\<open>env\<close>) and which names are output objects.
\<close>

definition function_effect :: "oenv \<Rightarrow> expr \<Rightarrow> string \<Rightarrow> expr list \<Rightarrow> (string \<times> expr) list \<Rightarrow> file_effect list" where
  "function_effect env c g args kws =
     (if map_of env g \<noteq> None then [Unknown c]
      else if g = ''open'' then open_effect c args kws
      else if g \<in> set database_readers then map LibraryReads (take 1 args)
      else if g \<in> set quiet_functions then []
      else [Unknown c])"

definition method_effect ::
  "oenv \<Rightarrow> string list \<Rightarrow> expr \<Rightarrow> expr \<Rightarrow> string \<Rightarrow> expr list \<Rightarrow> (string \<times> expr) list \<Rightarrow> file_effect list" where
  "method_effect env handles c e m args kws =
     (case owner_of env e of
        Chemistry \<Rightarrow>
          (if m = ''filename'' then
             (if list_ex (\<lambda>x. x \<in> set handles) (root_name e) \<and> args \<noteq> [] then map OutputFile (take 1 args)
              else [Unknown c])
           else if m = ''output'' then
             (if args = [] \<and> kws = [] then [] else map LibraryWrites (take 1 (args @ map snd kws)))
           else if m \<in> set quiet_methods then []
           else [Unknown c])
      | Numpy \<Rightarrow>
          (if m \<in> set readers \<and> args \<noteq> [] then map NotebookReads (take 1 args)
           else if m \<in> set writers \<and> args \<noteq> [] then map NotebookWrites (take 1 args)
           else if m \<in> set quiet_numpy then []
           else [Unknown c])
      | Matplotlib \<Rightarrow>
          (if m \<in> set writers \<and> args \<noteq> [] then map NotebookWrites (take 1 args)
           else if m \<in> set quiet_matplotlib then []
           else [Unknown c])
      | Python \<Rightarrow> [Unknown c])"

fun call_effect :: "oenv \<Rightarrow> string list \<Rightarrow> expr \<Rightarrow> file_effect list" where
  "call_effect env handles (Call (Name g) args kws) = function_effect env (Call (Name g) args kws) g args kws"
| "call_effect env handles (Call (Attribute e m) args kws) =
     method_effect env handles (Call (Attribute e m) args kws) e m args kws"
| "call_effect env handles (Call f args kws) = [Unknown (Call f args kws)]"
| "call_effect env handles e = []"

definition stmt_effects :: "oenv \<Rightarrow> string list \<Rightarrow> stmt \<Rightarrow> file_effect list" where
  "stmt_effects env handles s = concat (map (call_effect env handles) (stmt_exprs s))"

fun output_handle :: "stmt \<Rightarrow> string list" where
  "output_handle (Assign (Name x) (Call (Attribute p m) [] [])) = (if m = ''output'' then [x] else [])"
| "output_handle s = []"

fun all_effects :: "oenv \<Rightarrow> string list \<Rightarrow> (nat \<times> stmt) list \<Rightarrow> (nat \<times> file_effect) list" where
  "all_effects env handles [] = []"
| "all_effects env handles ((l, s) # rest) =
     map (Pair l) (stmt_effects env handles s)
       @ all_effects (owners_bound env s @ env) (output_handle s @ handles) rest"

definition file_effects :: "notebook \<Rightarrow> (nat \<times> file_effect) list" where
  "file_effects nb = all_effects [] [] (program nb)"

text \<open>The effects that create or change a file, or may do so.\<close>

fun creates :: "nat \<times> file_effect \<Rightarrow> bool" where
  "creates (l, NotebookReads e) = False"
| "creates (l, LibraryReads e) = False"
| "creates (l, eff) = True"

definition files_created :: "notebook \<Rightarrow> (nat \<times> file_effect) list" where
  "files_created nb = filter creates (file_effects nb)"

subsection \<open>Results after the solve\<close>

text \<open>
  A path writes, when it is solved, the files named to its output objects. Walking the
  statements with the output objects (which path each belongs to), the file names given to
  them, and the files written so far: every file the notebook's own code reads has been
  written by an earlier path solve, and the notebook's own code writes no file.
\<close>

fun handle_of :: "stmt \<Rightarrow> (string \<times> string) list" where
  "handle_of (Assign (Name x) (Call (Attribute (Name p) m) [] [])) = (if m = ''output'' then [(x, p)] else [])"
| "handle_of s = []"

fun file_named :: "stmt \<Rightarrow> (string \<times> string) list" where
  "file_named (Expr (Call (Attribute (Name x) m) [StrC f] [])) = (if m = ''filename'' then [(x, f)] else [])"
| "file_named s = []"

fun solved_path :: "expr \<Rightarrow> string list" where
  "solved_path (Call (Attribute e m) args kws) = (if m = ''solve'' then root_name e else [])"
| "solved_path e = []"

definition written_by :: "(string \<times> string) list \<Rightarrow> (string \<times> string) list \<Rightarrow> stmt \<Rightarrow> string list" where
  "written_by handles files s =
     concat (map (\<lambda>p. concat (map (\<lambda>h. if snd h = p then map snd (filter (\<lambda>xf. fst xf = fst h) files) else []) handles))
                 (concat (map solved_path (stmt_exprs s))))"

fun reads_written_file :: "string list \<Rightarrow> file_effect \<Rightarrow> bool" where
  "reads_written_file written (NotebookReads (StrC f)) = (f \<in> set written)"
| "reads_written_file written (NotebookReads e) = False"
| "reads_written_file written (NotebookWrites e) = False"
| "reads_written_file written (Unknown e) = False"
| "reads_written_file written eff = True"

fun results_after_solve ::
  "oenv \<Rightarrow> (string \<times> string) list \<Rightarrow> (string \<times> string) list \<Rightarrow> string list \<Rightarrow> stmt list \<Rightarrow> bool" where
  "results_after_solve env handles files written [] = True"
| "results_after_solve env handles files written (s # ss) =
     (list_all (reads_written_file written) (stmt_effects env (map fst handles) s)
      \<and> results_after_solve (owners_bound env s @ env) (handle_of s @ handles) (file_named s @ files)
           (written_by handles files s @ written) ss)"

definition reads_follow_writes :: "notebook \<Rightarrow> bool" where
  "reads_follow_writes nb = results_after_solve [] [] [] [] (map snd (program nb))"


section \<open>The amounts of the Evian water analysis\<close>

text \<open>
  A conversion from a mass to an amount, as the Evian notebook writes it: the statement
  \<^verbatim>\<open>p.add(ion, c * f / s.species(sp).molarMass(), unit)\<close>, with a float literal \<open>f\<close>. It
  yields the receiver \<open>p\<close>, the ion, the mass \<open>c\<close>, the factor \<open>f\<close>, the object \<open>s\<close> asked for
  the species, the name \<open>sp\<close> of the species whose molar mass divides, and the unit.
\<close>

fun method_call :: "expr \<Rightarrow> (expr \<times> string \<times> expr list \<times> (string \<times> expr) list) list" where
  "method_call (Call (Attribute e m) args kws) = [(e, m, args, kws)]"
| "method_call e = []"

fun as_str :: "expr \<Rightarrow> string list" where
  "as_str (StrC s) = [s]"
| "as_str e = []"

fun as_float :: "expr \<Rightarrow> rat list" where
  "as_float (FloatC f) = [f]"
| "as_float e = []"

fun as_binop :: "expr \<Rightarrow> (expr \<times> binop \<times> expr) list" where
  "as_binop (BinOp l opr r) = [(l, opr, r)]"
| "as_binop e = []"

fun expr_stmt :: "stmt \<Rightarrow> expr list" where
  "expr_stmt (Expr e) = [e]"
| "expr_stmt s = []"

fun one :: "'a list \<Rightarrow> 'a list" where
  "one [a] = [a]"
| "one xs = []"

fun three :: "'a list \<Rightarrow> ('a \<times> 'a \<times> 'a) list" where
  "three [a, b, c] = [(a, b, c)]"
| "three xs = []"

definition conversion :: "stmt \<Rightarrow> (string \<times> string \<times> expr \<times> rat \<times> string \<times> string \<times> string) list" where
  "conversion st =
     [(p, ion, c, f, s, sp, unit).
        e \<leftarrow> expr_stmt st,
        (recv, m, args, kws) \<leftarrow> method_call e, m = ''add'', kws = [], p \<leftarrow> name_of recv,
        (what, amount, u) \<leftarrow> three args, ion \<leftarrow> as_str what, unit \<leftarrow> as_str u,
        (mass, opr, molar) \<leftarrow> as_binop amount, opr = Div,
        (c, opr', factor) \<leftarrow> as_binop mass, opr' = Mult, f \<leftarrow> as_float factor,
        (species, m2, args2, kws2) \<leftarrow> method_call molar, m2 = ''molarMass'', args2 = [], kws2 = [],
        (sys, m1, args1, kws1) \<leftarrow> method_call species, m1 = ''species'', kws1 = [], s \<leftarrow> name_of sys,
        named \<leftarrow> one args1, sp \<leftarrow> as_str named]"

definition conversions :: "notebook \<Rightarrow> (nat \<times> string \<times> string \<times> expr \<times> rat \<times> string \<times> string \<times> string) list" where
  "conversions nb = tagged conversion (program nb)"

definition binders_of :: "string \<Rightarrow> notebook \<Rightarrow> (nat \<times> stmt) list" where
  "binders_of x nb = filter (\<lambda>ls. x \<in> set (binds (snd ls))) (program nb)"

definition added_at :: "nat \<Rightarrow> nat \<Rightarrow> notebook \<Rightarrow> nat list" where
  "added_at lo hi nb = map fst (filter (\<lambda>a. lo \<le> fst a \<and> fst a \<le> hi) (added nb))"

section \<open>The columns of the path notebooks\<close>

text \<open>
  The quantities registered on the output object, in order: the first argument of each call
  of \<^verbatim>\<open>add\<close> on a name bound to \<^verbatim>\<open>p.output()\<close>.
\<close>

fun quantity_added :: "string list \<Rightarrow> stmt \<Rightarrow> string list" where
  "quantity_added hs (Expr (Call (Attribute (Name x) m) (StrC q # rest) kws)) =
     (if m = ''add'' \<and> x \<in> set hs then [q] else [])"
| "quantity_added hs s = []"

definition columns :: "notebook \<Rightarrow> string list" where
  "columns nb =
     concat (map (quantity_added (concat (map output_handle (map snd (program nb))))) (map snd (program nb)))"

text \<open>
  The index variables: the targets of an unpacking of \<^verbatim>\<open>arange\<close>, with the numbers they
  receive. Modelled from numpy's documentation, numpy not being in the repository:
  \<^verbatim>\<open>arange(n)\<close> holds \<open>0, \<dots>, n - 1\<close> and \<^verbatim>\<open>arange(a, b)\<close> holds \<open>a, \<dots>, b - 1\<close>. Python
  raises when the number of targets differs from the number of elements: no binding then.
\<close>

fun arange :: "expr list \<Rightarrow> int list option" where
  "arange [IntC n] = Some [0..n - 1]"
| "arange [IntC a, IntC b] = Some [a..b - 1]"
| "arange args = None"

fun index_bindings :: "stmt \<Rightarrow> (string \<times> int) list" where
  "index_bindings (Assign t (Call (Attribute (Name m) f) args [])) =
     (if f = ''arange'' \<and> (m = ''numpy'' \<or> m = ''np'') \<and> is_sequence_target t then
        (case arange args of
           Some ns \<Rightarrow> (if length ns = length (target_names t) then zip (target_names t) ns else [])
         | None \<Rightarrow> [])
      else [])"
| "index_bindings s = []"

definition indices :: "notebook \<Rightarrow> (string \<times> int) list" where
  "indices nb = concat (map index_bindings (map snd (program nb)))"

text \<open>The quantity at a column number, when there is such a column.\<close>

definition column :: "notebook \<Rightarrow> int \<Rightarrow> string option" where
  "column nb i = (if 0 \<le> i \<and> nat i < length (columns nb) then Some (columns nb ! nat i) else None)"

definition named_columns :: "notebook \<Rightarrow> (string \<times> int \<times> string option) list" where
  "named_columns nb = map (\<lambda>vi. (fst vi, snd vi, column nb (snd vi))) (indices nb)"

text \<open>
  What a plot shows. An argument of \<^verbatim>\<open>plt.plot\<close> is a row of \<^verbatim>\<open>data\<close> picked by an
  index variable, \<^verbatim>\<open>data[v]\<close> or \<^verbatim>\<open>data[v, :]\<close>, or a name bound to such a row. Each plot is
  listed with its line, its label and, for each positional argument, the index variable, its
  number and the quantity registered at that column.
\<close>

fun index_var :: "expr \<Rightarrow> string list" where
  "index_var (Name v) = [v]"
| "index_var (TupleE [a, b]) = (if b = SliceAll then name_of a else [])"
| "index_var e = []"

fun row_index :: "expr \<Rightarrow> string list" where
  "row_index (Subscript d i) = (if d = Name ''data'' then index_var i else [])"
| "row_index e = []"

fun row_alias :: "stmt \<Rightarrow> (string \<times> string) list" where
  "row_alias (Assign (Name x) e) = map (Pair x) (row_index e)"
| "row_alias s = []"

fun plotted_index :: "(string \<times> string) list \<Rightarrow> expr \<Rightarrow> string list" where
  "plotted_index aliases (Name x) = (case map_of aliases x of Some v \<Rightarrow> [v] | None \<Rightarrow> [])"
| "plotted_index aliases e = row_index e"

fun label_of :: "(string \<times> expr) list \<Rightarrow> string" where
  "label_of [] = ''''"
| "label_of ((k, StrC l) # kws) = (if k = ''label'' then l else label_of kws)"
| "label_of (kw # kws) = label_of kws"

fun plot_call :: "(string \<times> string) list \<Rightarrow> expr \<Rightarrow> (string \<times> string list) list" where
  "plot_call aliases (Call (Attribute (Name p) m) args kws) =
     (if p = ''plt'' \<and> m = ''plot'' then [(label_of kws, concat (map (plotted_index aliases) args))] else [])"
| "plot_call aliases e = []"

definition shown :: "notebook \<Rightarrow> string \<Rightarrow> string \<times> int option \<times> string option" where
  "shown nb v =
     (v, map_of (indices nb) v,
      (case map_of (indices nb) v of Some i \<Rightarrow> column nb i | None \<Rightarrow> None))"

definition plotted :: "notebook \<Rightarrow> (nat \<times> string \<times> (string \<times> int option \<times> string option) list) list" where
  "plotted nb =
     map (\<lambda>lp. (fst lp, fst (snd lp), map (shown nb) (snd (snd lp))))
         (tagged (\<lambda>s. concat (map (plot_call (concat (map row_alias (map snd (program nb))))) (stmt_exprs s)))
                 (program nb))"

section \<open>Running a notebook\<close>

text \<open>
  The notebooks compute almost nothing themselves: they hand values to code that is not in the
  repository (the chemistry library, numpy, matplotlib, the \<^verbatim>\<open>math\<close> module, Python's
  builtins). That outside is a parameter of the interpreter. It answers requests:
  given a request and its own state (the \<^emph>\<open>world\<close>: library objects, files, figures) it
  returns a value or raises an error, and a new world.

  A value is an integer or a float as a literal of the notebook denotes it (a float literal
  by the rational number its decimal text stands for; Python holds the nearest floating-point
  number), a string, a sequence built by the notebook (list or tuple display), the slice
  \<^verbatim>\<open>:\<close>, a reference to a value the outside owns (an object, an array, also every number
  that results from arithmetic), or what a name that the notebook never bound stands for (a
  function, class or module that an import or the builtins provide). The interpreter computes
  no number itself: arithmetic, also between two literals, is a request to the outside, so
  that no floating-point result is fixed by the model.
\<close>

datatype val =
    VInt int
  | VFloat rat
  | VStr string
  | VSeq "val list"
  | VSlice
  | VRef nat
  | VGlobal string

datatype request =
    CallFunction val "val list" "(string \<times> val) list"
  | CallMethod val string "val list" "(string \<times> val) list"
  | GetAttr val string
  | GetItem val val
  | Operate binop val val
  | Format "val list"
  | Iterate val
  | ImportStar string
  | ImportModule string

text \<open>
  A failure is an error raised by the outside (kept as the outside gave it), the error Python
  raises when an unpacking finds the wrong number of elements, a value raised by a \<^verbatim>\<open>raise\<close>
  statement, or the mark of a statement form the interpreter does not model.
\<close>

datatype 'e failure =
    Raised 'e
  | ValueError
  | RaisedValue val
  | NotModelled

type_synonym ('w, 'e) outside = "request \<Rightarrow> 'w \<Rightarrow> ('e + val) \<times> 'w"

text \<open>
  The state of a run: the notebook's variables (the most recent binding of a name first), the
  world, and the requests made so far with their answers, oldest first.
\<close>

record ('w, 'e) state =
  env :: "(string \<times> val) list"
  world :: 'w
  trace :: "(request \<times> ('e + val)) list"

definition ask :: "('w, 'e) outside \<Rightarrow> request \<Rightarrow> ('w, 'e) state \<Rightarrow> ('e failure + val) \<times> ('w, 'e) state" where
  "ask orc rq st =
     (case orc rq (world st) of
        (Inl e, w) \<Rightarrow> (Inl (Raised e), st\<lparr>world := w, trace := trace st @ [(rq, Inl e)]\<rparr>)
      | (Inr v, w) \<Rightarrow> (Inr v, st\<lparr>world := w, trace := trace st @ [(rq, Inr v)]\<rparr>))"

definition lookup :: "string \<Rightarrow> ('w, 'e) state \<Rightarrow> val" where
  "lookup x st = (case map_of (env st) x of Some v \<Rightarrow> v | None \<Rightarrow> VGlobal x)"

text \<open>
  What a call calls: a method of a receiver (the callee is an attribute) or a function value.
  The lookup of a method and its call are one request.
\<close>

datatype callee = Method val string | Function val

fun call_request :: "callee \<Rightarrow> val list \<Rightarrow> (string \<times> val) list \<Rightarrow> request" where
  "call_request (Method recv m) vs kvs = CallMethod recv m vs kvs"
| "call_request (Function fv) vs kvs = CallFunction fv vs kvs"

text \<open>
  Evaluation goes left to right: the callee or receiver, the positional arguments, the keyword
  arguments, then the call. The first failure ends the evaluation.
\<close>

fun eval :: "('w, 'e) outside \<Rightarrow> expr \<Rightarrow> ('w, 'e) state \<Rightarrow> ('e failure + val) \<times> ('w, 'e) state"
and eval_callee :: "('w, 'e) outside \<Rightarrow> expr \<Rightarrow> ('w, 'e) state \<Rightarrow> ('e failure + callee) \<times> ('w, 'e) state"
and eval_list :: "('w, 'e) outside \<Rightarrow> expr list \<Rightarrow> ('w, 'e) state \<Rightarrow> ('e failure + val list) \<times> ('w, 'e) state"
and eval_kws :: "('w, 'e) outside \<Rightarrow> (string \<times> expr) list \<Rightarrow> ('w, 'e) state \<Rightarrow> ('e failure + (string \<times> val) list) \<times> ('w, 'e) state"
where
  "eval orc (Name x) st = (Inr (lookup x st), st)"
| "eval orc (IntC n) st = (Inr (VInt n), st)"
| "eval orc (FloatC q) st = (Inr (VFloat q), st)"
| "eval orc (StrC s) st = (Inr (VStr s), st)"
| "eval orc SliceAll st = (Inr VSlice, st)"
| "eval orc (JoinedStr es) st =
     (case eval_list orc es st of
        (Inl f, st1) \<Rightarrow> (Inl f, st1)
      | (Inr vs, st1) \<Rightarrow> ask orc (Format vs) st1)"
| "eval orc (Attribute e a) st =
     (case eval orc e st of
        (Inl f, st1) \<Rightarrow> (Inl f, st1)
      | (Inr v, st1) \<Rightarrow> ask orc (GetAttr v a) st1)"
| "eval orc (Call c args kws) st =
     (case eval_callee orc c st of
        (Inl f, st1) \<Rightarrow> (Inl f, st1)
      | (Inr target, st1) \<Rightarrow>
          (case eval_list orc args st1 of
             (Inl f, st2) \<Rightarrow> (Inl f, st2)
           | (Inr vs, st2) \<Rightarrow>
               (case eval_kws orc kws st2 of
                  (Inl f, st3) \<Rightarrow> (Inl f, st3)
                | (Inr kvs, st3) \<Rightarrow> ask orc (call_request target vs kvs) st3)))"
| "eval orc (BinOp l opr r) st =
     (case eval orc l st of
        (Inl f, st1) \<Rightarrow> (Inl f, st1)
      | (Inr a, st1) \<Rightarrow>
          (case eval orc r st1 of
             (Inl f, st2) \<Rightarrow> (Inl f, st2)
           | (Inr b, st2) \<Rightarrow> ask orc (Operate opr a b) st2))"
| "eval orc (ListE es) st =
     (case eval_list orc es st of
        (Inl f, st1) \<Rightarrow> (Inl f, st1)
      | (Inr vs, st1) \<Rightarrow> (Inr (VSeq vs), st1))"
| "eval orc (TupleE es) st =
     (case eval_list orc es st of
        (Inl f, st1) \<Rightarrow> (Inl f, st1)
      | (Inr vs, st1) \<Rightarrow> (Inr (VSeq vs), st1))"
| "eval orc (Subscript e i) st =
     (case eval orc e st of
        (Inl f, st1) \<Rightarrow> (Inl f, st1)
      | (Inr v, st1) \<Rightarrow>
          (case eval orc i st1 of
             (Inl f, st2) \<Rightarrow> (Inl f, st2)
           | (Inr iv, st2) \<Rightarrow> ask orc (GetItem v iv) st2))"
| "eval_callee orc (Attribute e m) st =
     (case eval orc e st of
        (Inl f, st1) \<Rightarrow> (Inl f, st1)
      | (Inr recv, st1) \<Rightarrow> (Inr (Method recv m), st1))"
| "eval_callee orc c st =
     (case eval orc c st of
        (Inl f, st1) \<Rightarrow> (Inl f, st1)
      | (Inr fv, st1) \<Rightarrow> (Inr (Function fv), st1))"
| "eval_list orc [] st = (Inr [], st)"
| "eval_list orc (e # es) st =
     (case eval orc e st of
        (Inl f, st1) \<Rightarrow> (Inl f, st1)
      | (Inr v, st1) \<Rightarrow>
          (case eval_list orc es st1 of
             (Inl f, st2) \<Rightarrow> (Inl f, st2)
           | (Inr vs, st2) \<Rightarrow> (Inr (v # vs), st2)))"
| "eval_kws orc [] st = (Inr [], st)"
| "eval_kws orc (kw # kws) st =
     (case eval orc (snd kw) st of
        (Inl f, st1) \<Rightarrow> (Inl f, st1)
      | (Inr v, st1) \<Rightarrow>
          (case eval_kws orc kws st1 of
             (Inl f, st2) \<Rightarrow> (Inl f, st2)
           | (Inr kvs, st2) \<Rightarrow> (Inr ((fst kw, v) # kvs), st2)))"

text \<open>
  Assignment. A name is bound; a tuple or list of targets takes the elements of the value one
  by one, left to right, and raises \<^verbatim>\<open>ValueError\<close> when their number differs. The elements
  of a sequence the notebook built are its members; those of any other value are asked from
  the outside (its iterator). Attribute and subscript targets are not modelled.
\<close>

fun as_sequence :: "val \<Rightarrow> 'e failure + val list" where
  "as_sequence (VSeq vs) = Inr vs"
| "as_sequence v = Inl NotModelled"

fun elements :: "('w, 'e) outside \<Rightarrow> val \<Rightarrow> ('w, 'e) state \<Rightarrow> ('e failure + val list) \<times> ('w, 'e) state" where
  "elements orc (VSeq vs) st = (Inr vs, st)"
| "elements orc v st =
     (case ask orc (Iterate v) st of
        (Inl f, st1) \<Rightarrow> (Inl f, st1)
      | (Inr a, st1) \<Rightarrow> (as_sequence a, st1))"

fun assign :: "('w, 'e) outside \<Rightarrow> expr \<Rightarrow> val \<Rightarrow> ('w, 'e) state \<Rightarrow> 'e failure option \<times> ('w, 'e) state"
and assign_each :: "('w, 'e) outside \<Rightarrow> expr list \<Rightarrow> val list \<Rightarrow> ('w, 'e) state \<Rightarrow> 'e failure option \<times> ('w, 'e) state"
where
  "assign orc (Name x) v st = (None, st\<lparr>env := (x, v) # env st\<rparr>)"
| "assign orc (TupleE ts) v st =
     (case elements orc v st of
        (Inl f, st1) \<Rightarrow> (Some f, st1)
      | (Inr vs, st1) \<Rightarrow> (if length vs = length ts then assign_each orc ts vs st1 else (Some ValueError, st1)))"
| "assign orc (ListE ts) v st =
     (case elements orc v st of
        (Inl f, st1) \<Rightarrow> (Some f, st1)
      | (Inr vs, st1) \<Rightarrow> (if length vs = length ts then assign_each orc ts vs st1 else (Some ValueError, st1)))"
| "assign orc t v st = (Some NotModelled, st)"
| "assign_each orc (t # ts) (v # vs) st =
     (case assign orc t v st of
        (Some f, st1) \<Rightarrow> (Some f, st1)
      | (None, st1) \<Rightarrow> assign_each orc ts vs st1)"
| "assign_each orc ts vs st = (None, st)"

text \<open>
  A star import asks the outside to import the module; the names it exports (the strings of
  the answer, when it is a sequence) then stand for what the module provides, also where the
  notebook had bound them before.
\<close>

fun exported :: "val \<Rightarrow> string list" where
  "exported (VSeq vs) = concat (map (\<lambda>v. case v of VStr x \<Rightarrow> [x] | _ \<Rightarrow> []) vs)"
| "exported v = []"

text \<open>
  Statements. The first failure ends the run of a statement list, except under \<^verbatim>\<open>try\<close>:
  there the handler runs instead and the failure is gone. (\<open>TryS body handler\<close> is
  \<^verbatim>\<open>try: body except: handler\<close>.) Branches, loops, definitions and \<^verbatim>\<open>with\<close> are not
  modelled: no notebook has one.
\<close>

fun exec :: "('w, 'e) outside \<Rightarrow> stmt \<Rightarrow> ('w, 'e) state \<Rightarrow> 'e failure option \<times> ('w, 'e) state"
and exec_list :: "('w, 'e) outside \<Rightarrow> stmt list \<Rightarrow> ('w, 'e) state \<Rightarrow> 'e failure option \<times> ('w, 'e) state"
where
  "exec orc (ImportFrom m) st =
     (case ask orc (ImportStar m) st of
        (Inl f, st1) \<Rightarrow> (Some f, st1)
      | (Inr v, st1) \<Rightarrow> (None, st1\<lparr>env := map (\<lambda>x. (x, VGlobal x)) (exported v) @ env st1\<rparr>))"
| "exec orc (Import m a) st =
     (case ask orc (ImportModule m) st of
        (Inl f, st1) \<Rightarrow> (Some f, st1)
      | (Inr v, st1) \<Rightarrow> (None, st1\<lparr>env := (a, v) # env st1\<rparr>))"
| "exec orc (Assign t e) st =
     (case eval orc e st of
        (Inl f, st1) \<Rightarrow> (Some f, st1)
      | (Inr v, st1) \<Rightarrow> assign orc t v st1)"
| "exec orc (Expr e) st =
     (case eval orc e st of
        (Inl f, st1) \<Rightarrow> (Some f, st1)
      | (Inr v, st1) \<Rightarrow> (None, st1))"
| "exec orc (TryS body handler) st =
     (case exec_list orc body st of
        (Some f, st1) \<Rightarrow> exec_list orc handler st1
      | (None, st1) \<Rightarrow> (None, st1))"
| "exec orc (Raise e) st =
     (case eval orc e st of
        (Inl f, st1) \<Rightarrow> (Some f, st1)
      | (Inr v, st1) \<Rightarrow> (Some (RaisedValue v), st1))"
| "exec orc (IfS c body orelse) st = (Some NotModelled, st)"
| "exec orc (ForS t it body) st = (Some NotModelled, st)"
| "exec orc (WhileS c body) st = (Some NotModelled, st)"
| "exec orc (FunctionDef f ps body) st = (Some NotModelled, st)"
| "exec orc (ClassDef c body) st = (Some NotModelled, st)"
| "exec orc (WithS e body) st = (Some NotModelled, st)"
| "exec_list orc [] st = (None, st)"
| "exec_list orc (s # ss) st =
     (case exec orc s st of
        (Some f, st1) \<Rightarrow> (Some f, st1)
      | (None, st1) \<Rightarrow> exec_list orc ss st1)"

text \<open>
  A run of a notebook executes its cells in file order in one namespace, from no variables and
  an empty trace, and stops at the first failure (as running all cells does).
\<close>

definition initial :: "'w \<Rightarrow> ('w, 'e) state" where
  "initial w = \<lparr>env = [], world = w, trace = []\<rparr>"

definition run :: "('w, 'e) outside \<Rightarrow> notebook \<Rightarrow> 'w \<Rightarrow> 'e failure option \<times> ('w, 'e) state" where
  "run orc nb w = exec_list orc (map snd (program nb)) (initial w)"

text \<open>
  A stand-in outside for concrete runs: it numbers the objects it hands out, answers every
  call, attribute, item, operation and format with a fresh reference, lets a star import
  export nothing, and iterates any value as the six numbers from 0 to 5.
\<close>

fun stub :: "(nat, string) outside" where
  "stub (Iterate v) n = (Inr (VSeq (map VInt [0, 1, 2, 3, 4, 5])), n)"
| "stub (ImportStar m) n = (Inr (VSeq []), n)"
| "stub rq n = (Inr (VRef n), Suc n)"

text \<open>The same, but every call of the method \<open>m\<close> raises \<open>e\<close>.\<close>

fun failing :: "string \<Rightarrow> string \<Rightarrow> (nat, string) outside" where
  "failing m e (CallMethod recv m' vs kvs) n = (if m' = m then (Inl e, n) else (Inr (VRef n), Suc n))"
| "failing m e rq n = stub rq n"

section \<open>Failures of the outside\<close>

text \<open>The errors the outside raised during a run, oldest first.\<close>

fun external_error :: "request \<times> ('e + val) \<Rightarrow> 'e list" where
  "external_error (rq, Inl e) = [e]"
| "external_error (rq, Inr v) = []"

definition failures :: "(request \<times> ('e + val)) list \<Rightarrow> 'e list" where
  "failures tr = concat (map external_error tr)"

fun err_of :: "'f + 'a \<Rightarrow> 'f option" where
  "err_of (Inl f) = Some f"
| "err_of (Inr v) = None"

text \<open>
  A result is faithful to a trace when it reports what the outside did: if the result is an
  error of the outside then that error answers the last request of the trace and no earlier
  request failed; with any other result no request failed at all.
\<close>

definition faithful :: "'e failure option \<Rightarrow> (request \<times> ('e + val)) list \<Rightarrow> bool" where
  "faithful res tr =
     (case res of
        Some (Raised e) \<Rightarrow> (\<exists>rq old. tr = old @ [(rq, Inl e)] \<and> failures old = [])
      | _ \<Rightarrow> failures tr = [])"

definition clean :: "('w, 'e) state \<Rightarrow> bool" where
  "clean st = (failures (trace st) = [])"

definition raise_free :: "stmt list \<Rightarrow> bool" where
  "raise_free ss = (\<not> list_ex is_raise (concat (map substmts ss)))"

definition statements :: "notebook \<Rightarrow> stmt list" where
  "statements nb = map snd (program nb)"

text \<open>No statement of the notebook, at any depth, is a \<^verbatim>\<open>try\<close> or a \<^verbatim>\<open>raise\<close>.\<close>

definition no_error_handling :: "notebook \<Rightarrow> bool" where
  "no_error_handling nb = (handler_free (statements nb) \<and> raise_free (statements nb))"

section \<open>Failures propagate\<close>

lemma faithful_None: "faithful None (trace st) = clean st"
  by (simp add: faithful_def clean_def)

lemma clean_env: "clean (st\<lparr>env := e\<rparr>) = clean st"
  by (simp add: clean_def)

lemma faithful_local: "clean st \<Longrightarrow> (\<And>e. f \<noteq> Raised e) \<Longrightarrow> faithful (Some f) (trace st)"
  by (cases f) (auto simp: faithful_def clean_def)

lemma faithful_ask:
  assumes "clean st"
  shows "faithful (err_of (fst (ask orc rq st))) (trace (snd (ask orc rq st)))"
proof (cases "orc rq (world st)")
  case (Pair a w)
  show ?thesis
  proof (cases a)
    case (Inl e)
    with Pair assms show ?thesis
      by (auto simp: ask_def faithful_def clean_def)
  next
    case (Inr v)
    with Pair assms show ?thesis
      by (auto simp: ask_def faithful_def clean_def failures_def)
  qed
qed

lemma faithful_eval:
  "clean st \<Longrightarrow> faithful (err_of (fst (eval orc e st))) (trace (snd (eval orc e st)))"
  "clean st \<Longrightarrow> faithful (err_of (fst (eval_callee orc c st))) (trace (snd (eval_callee orc c st)))"
  "clean st \<Longrightarrow> faithful (err_of (fst (eval_list orc es st))) (trace (snd (eval_list orc es st)))"
  "clean st \<Longrightarrow> faithful (err_of (fst (eval_kws orc kws st))) (trace (snd (eval_kws orc kws st)))"
proof (induction orc e st and orc c st and orc es st and orc kws st
       rule: eval_eval_callee_eval_list_eval_kws.induct)
qed (auto split: prod.splits sum.splits simp: faithful_ask faithful_None)

lemma faithful_as_sequence:
  "clean s \<Longrightarrow> faithful (err_of (as_sequence a)) (trace s)"
  by (cases a) (simp_all add: faithful_local faithful_None)

lemma faithful_elements:
  assumes "clean st"
  shows "faithful (err_of (fst (elements orc v st))) (trace (snd (elements orc v st)))"
proof (cases "\<exists>vs. v = VSeq vs")
  case True
  with assms show ?thesis by (auto simp: faithful_None)
next
  case False
  then have "elements orc v st =
     (case ask orc (Iterate v) st of (Inl f, st1) \<Rightarrow> (Inl f, st1) | (Inr a, st1) \<Rightarrow> (as_sequence a, st1))"
    by (cases v) simp_all
  then show ?thesis
    using faithful_ask [OF assms, of orc "Iterate v"]
    by (auto split: prod.splits sum.splits simp: faithful_None faithful_as_sequence)
qed

lemma faithful_assign:
  "clean st \<Longrightarrow> faithful (fst (assign orc t v st)) (trace (snd (assign orc t v st)))"
  "clean st \<Longrightarrow> faithful (fst (assign_each orc ts vs st)) (trace (snd (assign_each orc ts vs st)))"
proof (induction orc t v st and orc ts vs st rule: assign_assign_each.induct)
  case (2 orc ts v st)
  then show ?case
    using faithful_elements [of st orc v]
    by (auto split: prod.splits sum.splits simp: faithful_local faithful_None)
next
  case (3 orc ts v st)
  then show ?case
    using faithful_elements [of st orc v]
    by (auto split: prod.splits sum.splits simp: faithful_local faithful_None)
qed (auto split: prod.splits option.splits simp: faithful_local faithful_None clean_env)

lemma handler_free_Cons: "handler_free (s # ss) = (handler_free [s] \<and> handler_free ss)"
  by (auto simp: handler_free_def)

lemma handler_free_Try: "\<not> handler_free [TryS body handler]"
  by (simp add: handler_free_def)

lemma faithful_exec:
  "clean st \<Longrightarrow> handler_free [s] \<Longrightarrow> faithful (fst (exec orc s st)) (trace (snd (exec orc s st)))"
  "clean st \<Longrightarrow> handler_free ss \<Longrightarrow> faithful (fst (exec_list orc ss st)) (trace (snd (exec_list orc ss st)))"
proof (induction orc s st and orc ss st rule: exec_exec_list.induct)
  case (1 orc m st)
  then show ?case
    using faithful_ask [of st orc "ImportStar m"]
    by (auto split: prod.splits sum.splits simp: faithful_None clean_env)
next
  case (2 orc m a st)
  then show ?case
    using faithful_ask [of st orc "ImportModule m"]
    by (auto split: prod.splits sum.splits simp: faithful_None clean_env)
next
  case (3 orc t e st)
  then show ?case
    using faithful_eval(1) [of st orc e] faithful_assign(1) [of "snd (eval orc e st)" orc t]
    by (auto split: prod.splits sum.splits simp: faithful_None)
next
  case (4 orc e st)
  then show ?case
    using faithful_eval(1) [of st orc e]
    by (auto split: prod.splits sum.splits simp: faithful_None)
next
  case (5 orc body handler st)
  then show ?case by (simp add: handler_free_Try)
next
  case (6 orc e st)
  then show ?case
    using faithful_eval(1) [of st orc e]
    by (auto split: prod.splits sum.splits simp: faithful_local faithful_None)
next
  case (14 orc s ss st)
  from "14.prems"(2) have hs: "handler_free [s]" and hss: "handler_free ss"
    using handler_free_Cons [of s ss] by blast+
  obtain r st1 where ex: "exec orc s st = (r, st1)" by (cases "exec orc s st")
  have first: "faithful r (trace st1)"
    using "14.IH"(1) [OF "14.prems"(1) hs] ex by simp
  show ?case
  proof (cases r)
    case None
    with first have "clean st1" by (simp add: faithful_None)
    then show ?thesis
      using "14.IH"(2) [OF ex [symmetric] None _ hss] ex None by simp
  next
    case (Some f)
    with first ex show ?thesis by simp
  qed
qed (simp_all add: faithful_local faithful_None)

lemma clean_initial: "clean (initial w)"
  by (simp add: clean_def initial_def failures_def)

lemma repository_no_error_handling: "list_all no_error_handling repository"
  by code_simp

lemma failures_member: "(rq, Inl e) \<in> set tr \<Longrightarrow> failures tr \<noteq> []"
  by (induction tr) (auto simp: failures_def)

lemma faithful_member:
  assumes "faithful res tr" and "(rq, Inl e) \<in> set tr"
  shows "res = Some (Raised e) \<and> last tr = (rq, Inl e)"
proof -
  from assms(2) have nonempty: "failures tr \<noteq> []" by (rule failures_member)
  with assms(1) obtain e' where res: "res = Some (Raised e')"
    by (auto simp: faithful_def split: option.splits failure.splits)
  with assms(1) obtain rq' old where tr: "tr = old @ [(rq', Inl e')]" and old: "failures old = []"
    by (auto simp: faithful_def)
  from old have "(rq, Inl e) \<notin> set old" by (auto dest: failures_member)
  with assms(2) tr have "(rq, Inl e) = (rq', Inl e')" by simp
  with res tr show ?thesis by simp
qed

lemma run_faithful:
  assumes "handler_free (statements nb)"
  shows "faithful (fst (run orc nb w)) (trace (snd (run orc nb w)))"
  using faithful_exec(2) [OF clean_initial, of "statements nb" orc w] assms
  by (simp add: run_def statements_def)

section \<open>Properties of the notebooks\<close>

subsection \<open>The PHREEQC script\<close>

text \<open>
  C6. In the Evian notebook exactly two statements mention \<^verbatim>\<open>ex1\<close>: line 264 binds it to
  the raw string literal that holds the PHREEQC script, and line 321 passes the bare name as
  the only argument of \<^verbatim>\<open>phreeqc.execute\<close>. No statement of the notebook slices, formats,
  concatenates or otherwise reads the string.
\<close>

theorem ex1_passed_verbatim:
  "filter (\<lambda>ls. mentions ''ex1'' (snd ls)) (program eq_evian_water) =
     [(264, Assign (Name ''ex1'') (StrC ''(\<newline>SOLUTION 1\<newline>    temp      25\<newline>    pH        7.2\<newline>    pe        4\<newline>    redox     pe\<newline>    units     mg/kgw\<newline>    density   1\<newline>    C(4)      350\<newline>    Ca        80\<newline>    Cl        6.8\<newline>    K         1\<newline>    Mg        26\<newline>    N(5)      3.7\<newline>    Na        6.5\<newline>    S(6)      12.6\<newline>    Si        15\<newline>    -water    1 # kg\<newline>EQUILIBRIUM_PHASES 1\<newline>    Dolomite 0 0\<newline>    Calcite 0 0\<newline>    Quartz 0 0\<newline>end\<newline>)'')),
      (321, Expr (Call (Attribute (Name ''phreeqc'') ''execute'') [Name ''ex1''] []))]"
  by code_simp

subsection \<open>Original computation\<close>

text \<open>
  C1, as stated, fails on the Evian notebook: it has computational steps of its own. The
  amount of silica it adds at line 132 is an expression of number literals and arithmetic
  operators alone, \<^verbatim>\<open>15 * 1e-3 / 28.0855\<close>, with no call of any library.
\<close>

theorem evian_computes_counterexample:
  "\<not> every_computation_by_chemistry eq_evian_water
   \<and> (132, StrC ''Si'', BinOp (BinOp (IntC 15) Mult (FloatC (1 / 10^3))) Div (FloatC (280855 / 10^4)), StrC ''mol'')
       \<in> set (added eq_evian_water)
   \<and> literals_only (BinOp (BinOp (IntC 15) Mult (FloatC (1 / 10^3))) Div (FloatC (280855 / 10^4)))"
  by code_simp

text \<open>
  C1, amended: the full account of who serves the steps of the four notebooks (in the order
  kinetics, equilibrium path, sodium chloride, Evian). Arithmetic is written in the Evian
  notebook only, at lines 101 to 115 (milligrams to moles), 132 (silica) and 198, 204, 210
  (\<^verbatim>\<open>lnQ - lnK\<close>). The steps served by Python itself are the calls of \<^verbatim>\<open>print\<close> and, in
  the Evian notebook, the import of \<^verbatim>\<open>math\<close> and the three calls of its \<^verbatim>\<open>exp\<close> that
  form the saturation indices. numpy serves the loading, transposing, index and row steps of
  the two path notebooks, matplotlib their plots. One f-string (sodium chloride, line 188) and
  three displays (kinetics, lines 136, 287, 343) pass data on. Every other step, and each
  solver step, is served by the chemistry library, and every statement that invokes a solver
  is a bare call on names and literals.
\<close>

theorem computation_in_notebooks:
  "map (lines_with is_arithmetic) repository =
     [[], [], [], [101, 103, 105, 107, 109, 111, 113, 115, 132, 198, 204, 210]]
   \<and> map python_steps repository =
     [[], [],
      [(84, ''print''), (151, ''print''), (171, ''print''), (188, ''print'')],
      [(26, ''import''), (170, ''print''), (199, ''exp''), (205, ''exp''), (211, ''exp''),
       (213, ''print''), (214, ''print''), (215, ''print''), (243, ''print''), (244, ''print''),
       (245, ''print''), (373, ''print'')]]
   \<and> map (lines_with (served_by Numpy)) repository =
     [[324, 325, 326, 343, 346, 360, 374, 388, 389],
      [220, 236, 237, 238, 269, 291, 312, 313, 335], [], []]
   \<and> map (lines_with (served_by Matplotlib)) repository =
     [[307, 345, 346, 347, 348, 349, 350, 359, 360, 361, 362, 363, 364, 373, 374, 375, 376, 377,
       378, 387, 388, 389, 390, 391, 392, 393],
      [219, 268, 269, 270, 271, 272, 290, 291, 292, 293, 294, 311, 312, 313, 314, 315, 316, 317,
       334, 335, 336, 337, 338, 339], [], []]
   \<and> map (lines_with is_formatting) repository = [[], [], [188], []]
   \<and> map (lines_with is_display) repository = [[136, 287, 343], [], [], []]
   \<and> map solver_steps repository =
     [[(191, Served Chemistry ''equilibrate''), (288, Served Chemistry ''solve'')],
      [(124, Served Chemistry ''equilibrate''), (125, Served Chemistry ''equilibrate''),
       (200, Served Chemistry ''solve'')],
      [(134, Served Chemistry ''equilibrate''), (170, Served Chemistry ''equilibrate'')],
      [(169, Served Chemistry ''equilibrate''), (321, Served Chemistry ''execute'')]]
   \<and> list_all solves_by_bare_calls repository"
  by code_simp

subsection \<open>The conversions of the Evian notebook\<close>

text \<open>
  C2. The \<^verbatim>\<open>add\<close> calls at lines 101 to 115 of the Evian notebook are eight conversions
  on \<^verbatim>\<open>problem\<close>: the amount passed is the labelled mass times \<^verbatim>\<open>1e-6\<close> (milligrams to
  kilograms) divided by \<^verbatim>\<open>system.species(sp).molarMass()\<close>. For seven ions \<open>sp\<close> is the ion
  added; for \<^verbatim>\<open>SO4--\<close> it is the other species \<^verbatim>\<open>S2O4--\<close>. The \<^verbatim>\<open>system\<close> asked is the
  chemical system bound at line 37 (the name is bound again only at line 339).
\<close>

theorem evian_molar_amounts:
  "conversions eq_evian_water =
     [(101, ''problem'', ''Ca++'', IntC 80, 1 / 10^6, ''system'', ''Ca++'', ''mol''),
      (103, ''problem'', ''Cl-'', FloatC 6.8, 1 / 10^6, ''system'', ''Cl-'', ''mol''),
      (105, ''problem'', ''HCO3-'', IntC 350, 1 / 10^6, ''system'', ''HCO3-'', ''mol''),
      (107, ''problem'', ''Mg++'', IntC 26, 1 / 10^6, ''system'', ''Mg++'', ''mol''),
      (109, ''problem'', ''NO3-'', FloatC 3.7, 1 / 10^6, ''system'', ''NO3-'', ''mol''),
      (111, ''problem'', ''K+'', IntC 1, 1 / 10^6, ''system'', ''K+'', ''mol''),
      (113, ''problem'', ''Na+'', FloatC 6.5, 1 / 10^6, ''system'', ''Na+'', ''mol''),
      (115, ''problem'', ''SO4--'', FloatC 12.6, 1 / 10^6, ''system'', ''S2O4--'', ''mol'')]
   \<and> added_at 101 115 eq_evian_water = [101, 103, 105, 107, 109, 111, 113, 115]
   \<and> binders_of ''system'' eq_evian_water =
       [(37, Assign (Name ''system'') (Call (Name ''ChemicalSystem'') [Name ''editor''] [])),
        (339, Assign (Name ''system'') (Call (Name ''ChemicalSystem'') [Name ''phreeqc''] []))]
   \<and> binders_of ''problem'' eq_evian_water =
       [(78, Assign (Name ''problem'') (Call (Name ''EquilibriumInverseProblem'') [Name ''system''] []))]"
  by code_simp

subsection \<open>Order of the steps\<close>



subsection \<open>Files\<close>

text \<open>
  C5. The calls of the four notebooks that touch a file, all of them: the chemistry library
  reads its databases; the only files created are the ones named to the \<^verbatim>\<open>filename\<close> method
  of the output object of a path, which the path writes when it is solved; the notebooks' own
  code writes no file, and its only file operations are the two \<^verbatim>\<open>loadtxt\<close> reads, each of
  a file that an earlier path solve wrote. No call has an unknown effect.
\<close>

theorem files_written_by_library_only:
  "file_effects kin_calcite_hcl =
     [(254, OutputFile (StrC ''results.txt'')), (324, NotebookReads (StrC ''results.txt''))]
   \<and> file_effects eq_equilibriumpath =
     [(166, OutputFile (StrC ''result.txt'')), (236, NotebookReads (StrC ''result.txt''))]
   \<and> file_effects eq_sodium_chloride = [(34, LibraryReads (StrC ''supcrt98.xml''))]
   \<and> file_effects eq_evian_water =
     [(28, LibraryReads (StrC ''supcrt98.xml'')),
      (303, LibraryReads (StrC ''../databases/phreeqc/phreeqc.dat''))]
   \<and> map files_created repository =
     [[(254, OutputFile (StrC ''results.txt''))], [(166, OutputFile (StrC ''result.txt''))], [], []]
   \<and> list_all reads_follow_writes repository
   \<and> map (\<lambda>nb. lines_where path_solves (program nb)) repository = [[288], [200], [], []]"
  by code_simp

subsection \<open>Columns\<close>

text \<open>
  C7, as stated, fails in its example: pH is not column 5 in both path notebooks. In the
  equilibrium-path notebook \<^verbatim>\<open>ph_indx\<close> is 4 and pH is the quantity registered fifth, at
  column 4; column 5 is the mass of calcite.
\<close>

theorem ph_column_counterexample:
  "map_of (indices eq_equilibriumpath) ''ph_indx'' = Some 4
   \<and> column eq_equilibriumpath 4 = Some ''pH''
   \<and> column eq_equilibriumpath 5 = Some ''speciesMass(Calcite units=g)''"
  by code_simp

text \<open>
  C7, amended. In both path notebooks the index variables unpacked from \<^verbatim>\<open>arange\<close> number
  the quantities registered with \<^verbatim>\<open>output.add\<close> in their order, six of each; \<^verbatim>\<open>data\<close> is
  the transpose of the array loaded from the output file without its header row; and every
  plot takes its rows of \<^verbatim>\<open>data\<close> by these variables, so that it shows the quantities its
  label names. Column 0 is time in the kinetics notebook and the amount of Cl in the
  equilibrium-path notebook; pH is column 5 in the first and column 4 in the second.
\<close>

theorem columns_match_outputs:
  "named_columns kin_calcite_hcl =
     [(''time_indx'', 0, Some ''time(units=minute)''),
      (''ca_elem_indx'', 1, Some ''elementMolality(Ca units=mmolal)''),
      (''calcite_indx'', 2, Some ''phaseMass(Calcite units=g)''),
      (''ca_species_indx'', 3, Some ''speciesMolality(Ca++ units=mmolal)''),
      (''hco3_indx'', 4, Some ''speciesMolality(HCO3- units=mmolal)''),
      (''ph_indx'', 5, Some ''pH'')]
   \<and> length (columns kin_calcite_hcl) = 6
   \<and> named_columns eq_equilibriumpath =
     [(''cl_indx'', 0, Some ''elementAmount(Cl units=mmol)''),
      (''co2aq_indx'', 1, Some ''speciesMolality(CO2(aq) units=mmolal)''),
      (''co3_indx'', 2, Some ''speciesMolality(CO3-- units=mmolal)''),
      (''ca_indx'', 3, Some ''elementMolality(Ca units=mmolal)''),
      (''ph_indx'', 4, Some ''pH''),
      (''calcite_indx'', 5, Some ''speciesMass(Calcite units=g)'')]
   \<and> length (columns eq_equilibriumpath) = 6
   \<and> at_lines 324 325 (program kin_calcite_hcl) =
     [(324, Assign (Name ''filearray'')
              (Call (Attribute (Name ''numpy'') ''loadtxt'') [StrC ''results.txt''] [(''skiprows'', IntC 1)])),
      (325, Assign (Name ''data'') (Attribute (Name ''filearray'') ''T''))]
   \<and> at_lines 236 237 (program eq_equilibriumpath) =
     [(236, Assign (Name ''filearray'')
              (Call (Attribute (Name ''np'') ''loadtxt'') [StrC ''result.txt''] [(''skiprows'', IntC 1)])),
      (237, Assign (Name ''data'') (Attribute (Name ''filearray'') ''T''))]
   \<and> map (\<lambda>nb. (map fst (binders_of ''filearray'' nb), map fst (binders_of ''data'' nb)))
         [kin_calcite_hcl, eq_equilibriumpath] = [([324], [325]), ([236], [237])]
   \<and> plotted kin_calcite_hcl =
     [(346, ''Ca'', [(''time_indx'', Some 0, Some ''time(units=minute)''),
                     (''ca_elem_indx'', Some 1, Some ''elementMolality(Ca units=mmolal)'')]),
      (360, ''Calcite'', [(''time_indx'', Some 0, Some ''time(units=minute)''),
                          (''calcite_indx'', Some 2, Some ''phaseMass(Calcite units=g)'')]),
      (374, ''pH'', [(''time_indx'', Some 0, Some ''time(units=minute)''),
                     (''ph_indx'', Some 5, Some ''pH'')]),
      (388, ''Ca++'', [(''time_indx'', Some 0, Some ''time(units=minute)''),
                       (''ca_species_indx'', Some 3, Some ''speciesMolality(Ca++ units=mmolal)'')]),
      (389, ''HCO3-'', [(''time_indx'', Some 0, Some ''time(units=minute)''),
                        (''hco3_indx'', Some 4, Some ''speciesMolality(HCO3- units=mmolal)'')])]
   \<and> plotted eq_equilibriumpath =
     [(269, ''Cl'', [(''ph_indx'', Some 4, Some ''pH''),
                     (''cl_indx'', Some 0, Some ''elementAmount(Cl units=mmol)'')]),
      (291, ''Ca'', [(''cl_indx'', Some 0, Some ''elementAmount(Cl units=mmol)''),
                     (''ca_indx'', Some 3, Some ''elementMolality(Ca units=mmolal)'')]),
      (312, ''CO2(aq)'', [(''ph_indx'', Some 4, Some ''pH''),
                          (''co2aq_indx'', Some 1, Some ''speciesMolality(CO2(aq) units=mmolal)'')]),
      (313, ''CO3--'', [(''ph_indx'', Some 4, Some ''pH''),
                        (''co3_indx'', Some 2, Some ''speciesMolality(CO3-- units=mmolal)'')]),
      (335, ''Calcite'', [(''cl_indx'', Some 0, Some ''elementAmount(Cl units=mmol)''),
                          (''calcite_indx'', Some 5, Some ''speciesMass(Calcite units=g)'')])]"
  by code_simp

subsection \<open>Data structures\<close>

text \<open>
  C9. No notebook defines a function or a class, and no binding of a notebook variable holds a
  container built by the notebook's own code: every bound value is a value handed out by the
  library, a number, a string or a numpy value. At the lines the two path notebooks load their
  results, the file array, its transpose and the column indices are numpy values.
\<close>

theorem no_data_structures:
  "list_all no_own_structures repository
   \<and> bindings_at 324 326 kin_calcite_hcl =
       [(324, ''filearray'', KArray), (325, ''data'', KArray), (326, ''time_indx'', KArray),
        (326, ''ca_elem_indx'', KArray), (326, ''calcite_indx'', KArray),
        (326, ''ca_species_indx'', KArray), (326, ''hco3_indx'', KArray), (326, ''ph_indx'', KArray)]
   \<and> bindings_at 236 238 eq_equilibriumpath =
       [(236, ''filearray'', KArray), (237, ''data'', KArray), (238, ''cl_indx'', KArray),
        (238, ''co2aq_indx'', KArray), (238, ''co3_indx'', KArray), (238, ''ca_indx'', KArray),
        (238, ''ph_indx'', KArray), (238, ''calcite_indx'', KArray)]"
  by code_simp

subsection \<open>Errors\<close>

text \<open>
  C4. No statement of any notebook is a \<^verbatim>\<open>try\<close> or a \<^verbatim>\<open>raise\<close>, at any depth. Hence in
  every run of a notebook, against any outside and from any world, a request that the outside
  answers with an error is the last request of the run, and the run ends with exactly that
  error: nothing of the notebook catches, inspects or replaces it.
\<close>

theorem failure_propagates:
  assumes "nb \<in> set repository"
      and "run orc nb w = (res, st)"
      and "(rq, Inl e) \<in> set (trace st)"
  shows "no_error_handling nb \<and> res = Some (Raised e) \<and> last (trace st) = (rq, Inl e)"
proof -
  from assms(1) have neh: "no_error_handling nb"
    using repository_no_error_handling by (simp add: list_all_iff)
  then have "handler_free (statements nb)"
    by (simp add: no_error_handling_def)
  from run_faithful [OF this, of orc w] assms(2)
  have "faithful res (trace st)" by simp
  from faithful_member [OF this assms(3)] neh show ?thesis by simp
qed

theorem failure_propagates_witness:
  "kin_calcite_hcl \<in> set repository
   \<and> (CallMethod (VRef 20) ''solve'' [VRef 18, VFloat 0, VFloat 5, VStr ''minute''] [], Inl ''solver failed'')
       \<in> set (trace (snd (run (failing ''solve'' ''solver failed'') kin_calcite_hcl 0)))
   \<and> no_error_handling kin_calcite_hcl
   \<and> fst (run (failing ''solve'' ''solver failed'') kin_calcite_hcl 0) = Some (Raised ''solver failed'')
   \<and> last (trace (snd (run (failing ''solve'' ''solver failed'') kin_calcite_hcl 0)))
       = (CallMethod (VRef 20) ''solve'' [VRef 18, VFloat 0, VFloat 5, VStr ''minute''] [], Inl ''solver failed'')"
proof -
  have a: "kin_calcite_hcl \<in> set repository" by (simp add: repository_def)
  have b: "run (failing ''solve'' ''solver failed'') kin_calcite_hcl 0
             = (fst (run (failing ''solve'' ''solver failed'') kin_calcite_hcl 0),
                snd (run (failing ''solve'' ''solver failed'') kin_calcite_hcl 0))" by simp
  have c: "(CallMethod (VRef 20) ''solve'' [VRef 18, VFloat 0, VFloat 5, VStr ''minute''] [], Inl ''solver failed'')
       \<in> set (trace (snd (run (failing ''solve'' ''solver failed'') kin_calcite_hcl 0)))"
    by (simp add: run_def program_def kin_calcite_hcl_def initial_def ask_def lookup_def)
  from failure_propagates [OF a b c] a c show ?thesis by simp
qed

end
